theory Spec2Isabelle
  imports Complex_Main "HOL-Library.Stream" "HOL-Library.Monad_Syntax"
begin

section \<open>The gradient trainer of \<^verbatim>\<open>main.js\<close>\<close>

text \<open>
  The program is one JavaScript file. Its numbers are IEEE 754 doubles. The closures
  of the function catalog are modelled twice. For the calculus (are the partials the
  derivatives of the function?) they are read over \<^typ>\<open>real\<close>: \<open>evaluate\<close>,
  \<open>partialXValue\<close>, \<open>partialYValue\<close>. For everything the program computes with
  them (sampling, the arrow, grading) they are run in double arithmetic, with rounding,
  overflow, underflow and the special values: \<open>evaluate64\<close>, \<open>partialXValue64\<close>,
  \<open>partialYValue64\<close>, over the type \<open>jsnum\<close> further down.
\<close>

subsection \<open>The function catalog (\<^verbatim>\<open>FUNCTIONS\<close>)\<close>

text \<open>
  \<^verbatim>\<open>FUNCTIONS\<close> has the four keys below, in this order. An instance is the object
  \<^verbatim>\<open>generate()\<close> returns: its coefficients and closures over them. The closures of
  one family differ only in the captured coefficients, so an instance is the family
  tag with the coefficients, and \<open>evaluate\<close>, \<open>partialXValue\<close> and \<open>partialYValue\<close>
  are the closures' bodies.
\<close>

datatype family = quadratic | exponential | sinusoidal | saddle

datatype func =
    Quadratic int int int int int
  | Exponential int int int
  | Sinusoidal int int int
  | Saddle int int

fun evaluate :: "func \<Rightarrow> real \<Rightarrow> real \<Rightarrow> real" where
  "evaluate (Quadratic a b c d e) x y = a*x*x + b*x*y + c*y*y + d*x + e*y"
| "evaluate (Exponential a c d) x y = a * exp (-(x*x + y*y) / c) + d"
| "evaluate (Sinusoidal a b c) x y = a * sin x + b * cos y + c"
| "evaluate (Saddle a b) x y = a*x*x - b*y*y"

fun partialXValue :: "func \<Rightarrow> real \<Rightarrow> real \<Rightarrow> real" where
  "partialXValue (Quadratic a b c d e) x y = 2*a*x + b*y + d"
| "partialXValue (Exponential a c d) x y = a * exp (-(x*x + y*y) / c) * (-2*x / c)"
| "partialXValue (Sinusoidal a b c) x y = a * cos x"
| "partialXValue (Saddle a b) x y = 2*a*x"

fun partialYValue :: "func \<Rightarrow> real \<Rightarrow> real \<Rightarrow> real" where
  "partialYValue (Quadratic a b c d e) x y = b*x + 2*c*y + e"
| "partialYValue (Exponential a c d) x y = a * exp (-(x*x + y*y) / c) * (-2*y / c)"
| "partialYValue (Sinusoidal a b c) x y = -b * sin y"
| "partialYValue (Saddle a b) x y = -2*b*y"

subsection \<open>Random coefficients (\<^verbatim>\<open>randomInt\<close>, \<^verbatim>\<open>generate\<close>)\<close>

text \<open>
  \<^verbatim>\<open>Math.random()\<close> is the only source of randomness. The model threads the
  sequence of its future results as a stream: a call reads the head and leaves the
  tail. \<open>scale_draw\<close> is the expression
  \<^verbatim>\<open>Math.floor(Math.random() * (max - min + 1)) + min\<close> for one such result.
\<close>

definition scale_draw :: "int \<Rightarrow> int \<Rightarrow> real \<Rightarrow> int" where
  "scale_draw mn mx r = \<lfloor>r * real_of_int (mx - mn + 1)\<rfloor> + mn"

text \<open>
  The \<^verbatim>\<open>while (num === exclude)\<close> loop. \<open>exclude\<close> is \<open>None\<close> for the default
  \<^verbatim>\<open>null\<close>, which no number is strictly equal to. The loop need not end (a source
  that keeps producing the excluded value), so not returning is the result \<open>None\<close>.
\<close>

partial_function (option) randomInt_loop ::
  "int \<Rightarrow> int \<Rightarrow> int option \<Rightarrow> int \<Rightarrow> real stream \<Rightarrow> (int \<times> real stream) option" where
  "randomInt_loop mn mx exclude num rs =
     (if Some num = exclude
      then randomInt_loop mn mx exclude (scale_draw mn mx (shd rs)) (stl rs)
      else Some (num, rs))"

definition randomInt :: "int \<Rightarrow> int \<Rightarrow> int option \<Rightarrow> real stream \<Rightarrow> (int \<times> real stream) option" where
  "randomInt mn mx exclude rs = randomInt_loop mn mx exclude (scale_draw mn mx (shd rs)) (stl rs)"


text \<open>
  The ranges the catalog declares for each family, as the arguments of the
  \<^verbatim>\<open>randomInt\<close> calls give them: a closed interval, and 0 excluded where the call
  passes it.
\<close>

definition in_interval :: "int \<Rightarrow> int \<Rightarrow> int \<Rightarrow> bool" where
  "in_interval mn mx n \<longleftrightarrow> mn \<le> n \<and> n \<le> mx"

fun declared_ranges :: "func \<Rightarrow> bool" where
  "declared_ranges (Quadratic a b c d e) \<longleftrightarrow>
     in_interval (-3) 3 a \<and> a \<noteq> 0 \<and> in_interval (-3) 3 b \<and> b \<noteq> 0 \<and> in_interval (-3) 3 c \<and> c \<noteq> 0 \<and>
     in_interval (-2) 2 d \<and> d \<noteq> 0 \<and> in_interval (-2) 2 e \<and> e \<noteq> 0"
| "declared_ranges (Exponential a c d) \<longleftrightarrow>
     in_interval 1 3 a \<and> in_interval 1 3 c \<and> in_interval (-2) 2 d \<and> d \<noteq> 0"
| "declared_ranges (Sinusoidal a b c) \<longleftrightarrow>
     in_interval 1 3 a \<and> in_interval 1 3 b \<and> in_interval (-2) 2 c \<and> c \<noteq> 0"
| "declared_ranges (Saddle a b) \<longleftrightarrow> in_interval 1 3 a \<and> in_interval 1 3 b"



subsection \<open>JavaScript numbers\<close>

text \<open>
  A double is a real of the form \<open>m * 2 ^ q\<close> with \<open>\<bar>m\<bar> < 2 ^ 53\<close> and \<open>q \<ge> -1074\<close>,
  below \<open>2 ^ 1024\<close> in absolute value, or one of the special values. \<open>fl64 x\<close> is the
  multiple of the spacing of the doubles around \<open>x\<close> that is nearest to \<open>x\<close>, a tie
  going to the even multiple (round to nearest, ties to even, with the exponent not
  bounded above): \<open>binade x\<close> is the exponent of the power of two at or below
  \<open>\<bar>x\<bar>\<close>, and \<open>quantum x\<close> the exponent of the spacing there, which stops shrinking
  in the subnormal range.
\<close>

definition round_half_even :: "real \<Rightarrow> int" where
  "round_half_even y =
     (let f = \<lfloor>y\<rfloor>; d = y - of_int f
      in if d < 1 / 2 then f else if 1 / 2 < d then f + 1 else if even f then f else f + 1)"

definition binade :: "real \<Rightarrow> int" where
  "binade x = \<lfloor>log 2 \<bar>x\<bar>\<rfloor>"

definition quantum :: "real \<Rightarrow> int" where
  "quantum x = max (binade x) (- 1022) - 52"

definition fl64 :: "real \<Rightarrow> real" where
  "fl64 x = (if x = 0 then 0 else of_int (round_half_even (x / 2 powi quantum x)) * 2 powi quantum x)"

text \<open>
  \<open>Fin r\<close> is the finite double \<open>r\<close>, with \<open>Fin 0\<close> for \<open>+0\<close>; \<open>NegZero\<close> is \<open>-0\<close>.
\<close>

datatype jsnum = Fin real | NegZero | PosInf | NegInf | NaN

fun js_negative :: "jsnum \<Rightarrow> bool" where
  "js_negative (Fin r) = (r < 0)"
| "js_negative NegZero = True"
| "js_negative PosInf = False"
| "js_negative NegInf = True"
| "js_negative NaN = False"

fun js_is_zero :: "jsnum \<Rightarrow> bool" where
  "js_is_zero (Fin r) = (r = 0)"
| "js_is_zero NegZero = True"
| "js_is_zero v = False"

fun js_is_inf :: "jsnum \<Rightarrow> bool" where
  "js_is_inf PosInf = True"
| "js_is_inf NegInf = True"
| "js_is_inf v = False"

fun js_finite :: "jsnum \<Rightarrow> bool" where
  "js_finite (Fin r) = True"
| "js_finite NegZero = True"
| "js_finite v = False"

fun js_real :: "jsnum \<Rightarrow> real" where
  "js_real (Fin r) = r"
| "js_real v = 0"

definition js_zero :: "bool \<Rightarrow> jsnum" where
  "js_zero neg = (if neg then NegZero else Fin 0)"

definition js_inf :: "bool \<Rightarrow> jsnum" where
  "js_inf neg = (if neg then NegInf else PosInf)"

text \<open>
  The Number value for a real, as the language standard defines it: the nearest
  double; an infinity when that is \<open>2 ^ 1024\<close> or beyond; and when a non-zero real
  rounds to zero, the zero of its sign. An integer of the program, converted.
\<close>

definition number_value :: "real \<Rightarrow> jsnum" where
  "number_value x =
     (if x = 0 then Fin 0
      else if 2 ^ 1024 \<le> \<bar>fl64 x\<bar> then js_inf (x < 0)
      else if fl64 x = 0 then js_zero (x < 0)
      else Fin (fl64 x))"

definition js_int :: "int \<Rightarrow> jsnum" where
  "js_int n = number_value (of_int n)"

text \<open>
  \<open>Fin r\<close> is a value of the language when \<open>r\<close> is a double: when rounding leaves it
  as it is.
\<close>

fun js_double :: "jsnum \<Rightarrow> bool" where
  "js_double (Fin r) = (number_value r = Fin r)"
| "js_double v = True"

text \<open>
  The arithmetic operators. On the special values they follow IEEE 754; on finite
  operands they return the Number value for the exact result. The sum of two zeros
  is \<open>-0\<close> only when both are, and an exact sum of zero is \<open>+0\<close>; a product or
  quotient that is zero, or underflows to zero, has the sign of the exact result.
\<close>

fun js_neg :: "jsnum \<Rightarrow> jsnum" where
  "js_neg (Fin r) = (if r = 0 then NegZero else Fin (- r))"
| "js_neg NegZero = Fin 0"
| "js_neg PosInf = NegInf"
| "js_neg NegInf = PosInf"
| "js_neg NaN = NaN"

definition js_add :: "jsnum \<Rightarrow> jsnum \<Rightarrow> jsnum" where
  "js_add a b =
     (if a = NaN \<or> b = NaN then NaN
      else if js_is_inf a then (if js_is_inf b \<and> a \<noteq> b then NaN else a)
      else if js_is_inf b then b
      else if a = NegZero \<and> b = NegZero then NegZero
      else number_value (js_real a + js_real b))"

definition js_sub :: "jsnum \<Rightarrow> jsnum \<Rightarrow> jsnum" where
  "js_sub a b = js_add a (js_neg b)"

definition js_mul :: "jsnum \<Rightarrow> jsnum \<Rightarrow> jsnum" where
  "js_mul a b =
     (if a = NaN \<or> b = NaN then NaN
      else if js_is_inf a \<or> js_is_inf b
        then (if js_is_zero a \<or> js_is_zero b then NaN else js_inf (js_negative a \<noteq> js_negative b))
      else if js_real a * js_real b = 0 then js_zero (js_negative a \<noteq> js_negative b)
      else number_value (js_real a * js_real b))"

definition js_div :: "jsnum \<Rightarrow> jsnum \<Rightarrow> jsnum" where
  "js_div a b =
     (if a = NaN \<or> b = NaN then NaN
      else if js_is_inf a then (if js_is_inf b then NaN else js_inf (js_negative a \<noteq> js_negative b))
      else if js_is_inf b then js_zero (js_negative a \<noteq> js_negative b)
      else if js_is_zero b
        then (if js_is_zero a then NaN else js_inf (js_negative a \<noteq> js_negative b))
      else if js_is_zero a then js_zero (js_negative a \<noteq> js_negative b)
      else number_value (js_real a / js_real b))"

fun js_abs :: "jsnum \<Rightarrow> jsnum" where
  "js_abs (Fin r) = Fin \<bar>r\<bar>"
| "js_abs NegZero = Fin 0"
| "js_abs PosInf = PosInf"
| "js_abs NegInf = PosInf"
| "js_abs NaN = NaN"

text \<open>The comparisons \<^verbatim>\<open><\<close> and \<^verbatim>\<open><=\<close>: false when an operand is \<open>NaN\<close>.\<close>

definition js_lt :: "jsnum \<Rightarrow> jsnum \<Rightarrow> bool" where
  "js_lt a b =
     (if a = NaN \<or> b = NaN then False
      else if a = NegInf then b \<noteq> NegInf
      else if a = PosInf then False
      else if b = PosInf then True
      else if b = NegInf then False
      else js_real a < js_real b)"

definition js_le :: "jsnum \<Rightarrow> jsnum \<Rightarrow> bool" where
  "js_le a b = (a \<noteq> NaN \<and> b \<noteq> NaN \<and> \<not> js_lt b a)"

text \<open>
  \<^verbatim>\<open>isNaN\<close> and the functions of \<^verbatim>\<open>Math\<close> that the program and the evaluator's
  replacements name. The standard fixes their results at the special values; at the
  other arguments the host returns an approximation of its choice (``an
  implementation-approximated value''; for \<^verbatim>\<open>sqrt\<close> the recent editions ask for the
  correctly rounded root), as it does for \<^verbatim>\<open>**\<close>. What the host returns there is a
  parameter, the \<open>engine\<close>: nothing is assumed of it, and what is proved holds of
  every host.
\<close>

definition js_isNaN :: "jsnum \<Rightarrow> bool" where
  "js_isNaN a = (a = NaN)"

datatype builtin = BSin | BCos | BTan | BSqrt | BExp | BAbs

record engine =
  math_fn :: "builtin \<Rightarrow> real \<Rightarrow> jsnum"
  power_fn :: "real \<Rightarrow> real \<Rightarrow> jsnum"

fun js_math :: "engine \<Rightarrow> builtin \<Rightarrow> jsnum \<Rightarrow> jsnum" where
  "js_math E BSin (Fin r) = (if r = 0 then Fin 0 else math_fn E BSin r)"
| "js_math E BSin NegZero = NegZero"
| "js_math E BSin v = NaN"
| "js_math E BCos (Fin r) = (if r = 0 then Fin 1 else math_fn E BCos r)"
| "js_math E BCos NegZero = Fin 1"
| "js_math E BCos v = NaN"
| "js_math E BTan (Fin r) = (if r = 0 then Fin 0 else math_fn E BTan r)"
| "js_math E BTan NegZero = NegZero"
| "js_math E BTan v = NaN"
| "js_math E BSqrt (Fin r) = (if r < 0 then NaN else if r = 0 then Fin 0 else math_fn E BSqrt r)"
| "js_math E BSqrt NegZero = NegZero"
| "js_math E BSqrt PosInf = PosInf"
| "js_math E BSqrt v = NaN"
| "js_math E BExp (Fin r) = (if r = 0 then Fin 1 else math_fn E BExp r)"
| "js_math E BExp NegZero = Fin 1"
| "js_math E BExp PosInf = PosInf"
| "js_math E BExp NegInf = Fin 0"
| "js_math E BExp NaN = NaN"
| "js_math E BAbs v = js_abs v"

text \<open>
  \<^verbatim>\<open>base ** exponent\<close>, by the cases of the standard, in its order.
\<close>

fun js_odd_integer :: "jsnum \<Rightarrow> bool" where
  "js_odd_integer (Fin r) = (r = of_int \<lfloor>r\<rfloor> \<and> odd \<lfloor>r\<rfloor>)"
| "js_odd_integer v = False"

fun js_integer :: "jsnum \<Rightarrow> bool" where
  "js_integer (Fin r) = (r = of_int \<lfloor>r\<rfloor>)"
| "js_integer NegZero = True"
| "js_integer v = False"

definition js_pow :: "engine \<Rightarrow> jsnum \<Rightarrow> jsnum \<Rightarrow> jsnum" where
  "js_pow E base exponent =
     (if exponent = NaN then NaN
      else if js_is_zero exponent then Fin 1
      else if base = NaN then NaN
      else if base = PosInf then (if js_negative exponent then Fin 0 else PosInf)
      else if base = NegInf then
        (if js_negative exponent then (if js_odd_integer exponent then NegZero else Fin 0)
         else (if js_odd_integer exponent then NegInf else PosInf))
      else if base = Fin 0 then (if js_negative exponent then PosInf else Fin 0)
      else if base = NegZero then
        (if js_negative exponent then (if js_odd_integer exponent then NegInf else PosInf)
         else (if js_odd_integer exponent then NegZero else Fin 0))
      else if exponent = PosInf then
        (if 1 < \<bar>js_real base\<bar> then PosInf else if \<bar>js_real base\<bar> = 1 then NaN else Fin 0)
      else if exponent = NegInf then
        (if 1 < \<bar>js_real base\<bar> then Fin 0 else if \<bar>js_real base\<bar> = 1 then NaN else PosInf)
      else if js_real base < 0 \<and> \<not> js_integer exponent then NaN
      else power_fn E (js_real base) (js_real exponent))"

text \<open>
  A host whose functions are correctly rounded, for the examples: the theorems do
  not depend on it.
\<close>

fun exact_math :: "builtin \<Rightarrow> real \<Rightarrow> real" where
  "exact_math BSin r = sin r"
| "exact_math BCos r = cos r"
| "exact_math BTan r = tan r"
| "exact_math BSqrt r = sqrt r"
| "exact_math BExp r = exp r"
| "exact_math BAbs r = \<bar>r\<bar>"

definition exact_power :: "real \<Rightarrow> real \<Rightarrow> real" where
  "exact_power b e = (if b < 0 then (if even \<lfloor>e\<rfloor> then 1 else - 1) * (- b) powr e else b powr e)"

definition correctly_rounded :: engine where
  "correctly_rounded =
     \<lparr>math_fn = (\<lambda>b r. number_value (exact_math b r)),
      power_fn = (\<lambda>b e. number_value (exact_power b e))\<rparr>"


subsection \<open>The closures of an instance in double arithmetic\<close>

text \<open>
  The bodies of \<^verbatim>\<open>evaluate\<close>, \<^verbatim>\<open>partialXValue\<close> and \<^verbatim>\<open>partialYValue\<close> as the host runs
  them: every operator rounds, in the order the language groups them (\<^verbatim>\<open>*\<close> and
  \<^verbatim>\<open>/\<close> before \<^verbatim>\<open>+\<close>, unary minus before both, left to right).
\<close>

fun evaluate64 :: "engine \<Rightarrow> func \<Rightarrow> jsnum \<Rightarrow> jsnum \<Rightarrow> jsnum" where
  "evaluate64 E (Quadratic a b c d e) x y =
     js_add (js_add (js_add (js_add (js_mul (js_mul (js_int a) x) x) (js_mul (js_mul (js_int b) x) y))
                            (js_mul (js_mul (js_int c) y) y))
                    (js_mul (js_int d) x))
            (js_mul (js_int e) y)"
| "evaluate64 E (Exponential a c d) x y =
     js_add (js_mul (js_int a)
               (js_math E BExp (js_div (js_neg (js_add (js_mul x x) (js_mul y y))) (js_int c))))
            (js_int d)"
| "evaluate64 E (Sinusoidal a b c) x y =
     js_add (js_add (js_mul (js_int a) (js_math E BSin x)) (js_mul (js_int b) (js_math E BCos y)))
            (js_int c)"
| "evaluate64 E (Saddle a b) x y =
     js_sub (js_mul (js_mul (js_int a) x) x) (js_mul (js_mul (js_int b) y) y)"

fun partialXValue64 :: "engine \<Rightarrow> func \<Rightarrow> jsnum \<Rightarrow> jsnum \<Rightarrow> jsnum" where
  "partialXValue64 E (Quadratic a b c d e) x y =
     js_add (js_add (js_mul (js_mul (js_int 2) (js_int a)) x) (js_mul (js_int b) y)) (js_int d)"
| "partialXValue64 E (Exponential a c d) x y =
     js_mul (js_mul (js_int a)
               (js_math E BExp (js_div (js_neg (js_add (js_mul x x) (js_mul y y))) (js_int c))))
            (js_div (js_mul (js_neg (js_int 2)) x) (js_int c))"
| "partialXValue64 E (Sinusoidal a b c) x y = js_mul (js_int a) (js_math E BCos x)"
| "partialXValue64 E (Saddle a b) x y = js_mul (js_mul (js_int 2) (js_int a)) x"

fun partialYValue64 :: "engine \<Rightarrow> func \<Rightarrow> jsnum \<Rightarrow> jsnum \<Rightarrow> jsnum" where
  "partialYValue64 E (Quadratic a b c d e) x y =
     js_add (js_add (js_mul (js_int b) x) (js_mul (js_mul (js_int 2) (js_int c)) y)) (js_int e)"
| "partialYValue64 E (Exponential a c d) x y =
     js_mul (js_mul (js_int a)
               (js_math E BExp (js_div (js_neg (js_add (js_mul x x) (js_mul y y))) (js_int c))))
            (js_div (js_mul (js_neg (js_int 2)) y) (js_int c))"
| "partialYValue64 E (Sinusoidal a b c) x y = js_mul (js_neg (js_int b)) (js_math E BSin y)"
| "partialYValue64 E (Saddle a b) x y = js_mul (js_mul (js_neg (js_int 2)) (js_int b)) y"

subsection \<open>Surface sampling and the gradient arrow\<close>

text \<open>
  \<^verbatim>\<open>generateSurfaceData\<close> fixes \<^verbatim>\<open>range = 5\<close> and \<^verbatim>\<open>step = 0.3\<close>; the latter is the
  double nearest to 0.3. Each of its first two loops is \<open>axis_loop\<close>: the loop
  variable, the bound and the array built so far. Adding the step to a large double
  can leave it unchanged, so the loop need not end: not returning is the result
  \<open>None\<close>.
\<close>

definition surface_range :: jsnum where
  "surface_range = js_int 5"

definition surface_step :: jsnum where
  "surface_step = number_value (3 / 10)"

partial_function (option) axis_loop :: "jsnum \<Rightarrow> jsnum \<Rightarrow> jsnum list \<Rightarrow> jsnum list option" where
  "axis_loop i hi acc =
     (if js_le i hi then axis_loop (js_add i surface_step) hi (acc @ [i]) else Some acc)"

record surface_data =
  grid_x :: "jsnum list"
  grid_y :: "jsnum list"
  grid_z :: "jsnum list list"

definition generateSurfaceData :: "engine \<Rightarrow> func \<Rightarrow> jsnum \<Rightarrow> jsnum \<Rightarrow> surface_data option" where
  "generateSurfaceData E f x0 y0 = do {
     x \<leftarrow> axis_loop (js_sub x0 surface_range) (js_add x0 surface_range) [];
     y \<leftarrow> axis_loop (js_sub y0 surface_range) (js_add y0 surface_range) [];
     Some \<lparr>grid_x = x, grid_y = y, grid_z = map (\<lambda>yi. map (\<lambda>xi. evaluate64 E f xi yi) x) y\<rparr> }"

text \<open>
  \<^verbatim>\<open>generateGradientArrows\<close> returns a plotting trace; its \<^verbatim>\<open>x\<close>, \<^verbatim>\<open>y\<close> and \<^verbatim>\<open>z\<close>
  arrays hold the two endpoints of the arrow. The remaining fields of the trace are
  constants of the rendering library and are left out.
\<close>

record arrow_trace =
  arrow_x :: "jsnum list"
  arrow_y :: "jsnum list"
  arrow_z :: "jsnum list"

definition arrow_scale :: jsnum where
  "arrow_scale = number_value (3 / 10)"

definition generateGradientArrows :: "engine \<Rightarrow> func \<Rightarrow> jsnum \<Rightarrow> jsnum \<Rightarrow> arrow_trace" where
  "generateGradientArrows E f x0 y0 =
     (let dfdx = partialXValue64 E f x0 y0;
          dfdy = partialYValue64 E f x0 y0;
          z0 = evaluate64 E f x0 y0;
          magnitude = js_math E BSqrt (js_add (js_mul dfdx dfdx) (js_mul dfdy dfdy));
          scaledDfdx = (if js_lt (Fin 0) magnitude then js_mul (js_div dfdx magnitude) arrow_scale else Fin 0);
          scaledDfdy = (if js_lt (Fin 0) magnitude then js_mul (js_div dfdy magnitude) arrow_scale else Fin 0)
      in \<lparr>arrow_x = [x0, js_add x0 scaledDfdx], arrow_y = [y0, js_add y0 scaledDfdy], arrow_z = [z0, z0]\<rparr>)"

text \<open>
  The constant \<^verbatim>\<open>magnitude\<close> of \<^verbatim>\<open>generateGradientArrows\<close>, for the statements about
  it.
\<close>

definition gradient_magnitude :: "engine \<Rightarrow> func \<Rightarrow> jsnum \<Rightarrow> jsnum \<Rightarrow> jsnum" where
  "gradient_magnitude E f x0 y0 =
     (let dfdx = partialXValue64 E f x0 y0;
          dfdy = partialYValue64 E f x0 y0
      in js_math E BSqrt (js_add (js_mul dfdx dfdx) (js_mul dfdy dfdy)))"

subsection \<open>Strings and the replacement chain of \<^verbatim>\<open>evaluateExpression\<close>\<close>

text \<open>
  A string is modelled as the bytes of its UTF-8 encoding, in which \<^verbatim>\<open>\<pi>\<close> takes two
  bytes. \<open>replace_all pat rep s\<close> is \<^verbatim>\<open>s.replace(/pat/g, rep)\<close> for a pattern that is
  plain text: it scans from the left and replaces every match, continuing after it.
\<close>

fun replace_all :: "string \<Rightarrow> string \<Rightarrow> string \<Rightarrow> string" where
  "replace_all pat rep [] = []"
| "replace_all pat rep (c # cs) =
     (if pat \<noteq> [] \<and> take (length pat) (c # cs) = pat
      then rep @ replace_all pat rep (drop (length pat - 1) cs)
      else c # replace_all pat rep cs)"

text \<open>
  The template literal \<^verbatim>\<open>`(${x})`\<close> converts the number to a string. The evaluator is
  called with the coordinates of the question's point, which \<^verbatim>\<open>randomPoint\<close> draws as
  integers, and with the constant 1: an integer is written in decimal digits, with a
  minus sign when negative.
\<close>

fun nat_digits :: "nat \<Rightarrow> string" where
  "nat_digits n =
     (if n < 10 then [''0123456789'' ! n] else nat_digits (n div 10) @ [''0123456789'' ! (n mod 10)])"

declare nat_digits.simps [simp del]

definition int_to_string :: "int \<Rightarrow> string" where
  "int_to_string n = (if n < 0 then CHR ''-'' # nat_digits (nat (- n)) else nat_digits (nat n))"

text \<open>
  \<^verbatim>\<open>Math.PI\<close> and \<^verbatim>\<open>Math.E\<close> as the strings the replacements insert, and the bytes of
  \<^verbatim>\<open>\<pi>\<close>.
\<close>

definition MATH_PI :: string where
  "MATH_PI = ''3.141592653589793''"

definition MATH_E :: string where
  "MATH_E = ''2.718281828459045''"

definition pi_char :: string where
  "pi_char = [CHR 0xCF, CHR 0x80]"

text \<open>
  The eleven \<^verbatim>\<open>.replace\<close> calls, in the order of the source: \<^verbatim>\<open>x\<close>, \<^verbatim>\<open>y\<close>, \<^verbatim>\<open>\<pi>\<close>,
  \<^verbatim>\<open>e\<close>, \<^verbatim>\<open>^\<close>, \<^verbatim>\<open>sin\<close>, \<^verbatim>\<open>cos\<close>, \<^verbatim>\<open>tan\<close>, \<^verbatim>\<open>sqrt\<close>, \<^verbatim>\<open>exp\<close>, \<^verbatim>\<open>abs\<close>. The
  innermost call below is the first one.
\<close>

definition substitute :: "string \<Rightarrow> int \<Rightarrow> int \<Rightarrow> string" where
  "substitute expr x y =
     replace_all ''abs'' ''Math.abs''
      (replace_all ''exp'' ''Math.exp''
       (replace_all ''sqrt'' ''Math.sqrt''
        (replace_all ''tan'' ''Math.tan''
         (replace_all ''cos'' ''Math.cos''
          (replace_all ''sin'' ''Math.sin''
           (replace_all ''^'' ''**''
            (replace_all ''e'' MATH_E
             (replace_all pi_char MATH_PI
              (replace_all ''y'' (''('' @ int_to_string y @ '')'')
               (replace_all ''x'' (''('' @ int_to_string x @ '')'') expr))))))))))"

subsection \<open>The host: the \<^verbatim>\<open>Function\<close> constructor on a fragment of JavaScript\<close>

text \<open>
  \<^verbatim>\<open>evaluateExpression\<close> hands the text it has built to
  \<^verbatim>\<open>Function('"use strict"; return (' + result + ')')()\<close>: the host parses the text as a
  function body and runs it. What the host does is not code of this program; it is
  modelled for the fragment of the language that arithmetic needs: decimal literals
  of at most 20 digits, BigInt literals, identifiers, member access, calls,
  parentheses, unary \<^verbatim>\<open>+ -\<close>, binary \<^verbatim>\<open>+ - * / **\<close>, and function expressions without
  parameters whose body consists of expression statements, \<^verbatim>\<open>return\<close> and the loop
  \<^verbatim>\<open>for(;;);\<close>. The four outcomes of running a text are: it returns a value; it
  throws (while being parsed or while running); it does not return; or the text
  leaves the fragment, and the model says nothing about it (\<open>Unmodelled\<close>). No text
  of the fragment has an effect on the program's state. The globals are those of the
  page as it loads.
\<close>

datatype js_error = SyntaxError | TypeError

datatype 'a outcome = Returns 'a | Throws js_error | Diverges | Unmodelled

definition obind :: "'a outcome \<Rightarrow> ('a \<Rightarrow> 'b outcome) \<Rightarrow> 'b outcome" where
  "obind m k = (case m of Returns a \<Rightarrow> k a | Throws e \<Rightarrow> Throws e | Diverges \<Rightarrow> Diverges | Unmodelled \<Rightarrow> Unmodelled)"

datatype token =
    TNum string string | TBig string | TId string
  | TLParen | TRParen | TLBrace | TRBrace
  | TPlus | TMinus | TStar | TPow | TSlash | TDot | TComma | TSemi

definition is_digit :: "char \<Rightarrow> bool" where
  "is_digit c \<longleftrightarrow> c \<in> set ''0123456789''"

definition is_letter :: "char \<Rightarrow> bool" where
  "is_letter c \<longleftrightarrow> c \<in> set ''abcdefghijklmnopqrstuvwxyzABCDEFGHIJKLMNOPQRSTUVWXYZ_''"

text \<open>
  The lexer reads one character at a time. Characters outside the fragment, the
  operators \<^verbatim>\<open>++ -- // /*\<close>, numerals in any form but digits with an optional
  fraction or a final \<^verbatim>\<open>n\<close>, and reserved words other than \<^verbatim>\<open>function\<close>, \<^verbatim>\<open>for\<close> and
  \<^verbatim>\<open>return\<close> make the text unmodelled (\<open>None\<close>). So does a decimal literal of more
  than 20 digits: the standard lets the host choose between two readings of it.
\<close>

definition other_keywords :: "string list" where
  "other_keywords =
     [''await'', ''async'', ''break'', ''case'', ''catch'', ''class'', ''const'', ''continue'',
      ''debugger'', ''default'', ''delete'', ''do'', ''else'', ''enum'', ''export'', ''extends'',
      ''false'', ''finally'', ''if'', ''implements'', ''import'', ''in'', ''instanceof'',
      ''interface'', ''let'', ''new'', ''null'', ''of'', ''package'', ''private'', ''protected'',
      ''public'', ''static'', ''super'', ''switch'', ''this'', ''throw'', ''true'', ''try'',
      ''typeof'', ''var'', ''void'', ''while'', ''with'', ''yield'']"

datatype lexstate =
  LIdle | LInt string | LDot string | LFrac string string | LBig string | LId string | LStar

definition leading_zero :: "string \<Rightarrow> bool" where
  "leading_zero ds \<longleftrightarrow> 1 < length ds \<and> take 1 ds = ''0''"

fun close_lexeme :: "lexstate \<Rightarrow> token list option" where
  "close_lexeme LIdle = Some []"
| "close_lexeme (LInt ds) =
     (if leading_zero ds \<or> 20 < length ds then None else Some [TNum ds []])"
| "close_lexeme (LDot ds) = None"
| "close_lexeme (LFrac ds fs) =
     (if leading_zero ds \<or> 20 < length ds + length fs then None else Some [TNum ds fs])"
| "close_lexeme (LBig ds) = (if leading_zero ds then None else Some [TBig ds])"
| "close_lexeme (LId s) = (if s \<in> set other_keywords then None else Some [TId s])"
| "close_lexeme LStar = None"

definition start_lexeme :: "char \<Rightarrow> string \<Rightarrow> (token list \<times> lexstate) option" where
  "start_lexeme c rest =
     (if c = CHR '' '' \<or> c = CHR 0x09 then Some ([], LIdle)
      else if is_digit c then Some ([], LInt [c])
      else if is_letter c then Some ([], LId [c])
      else if c = CHR ''('' then Some ([TLParen], LIdle)
      else if c = CHR '')'' then Some ([TRParen], LIdle)
      else if c = CHR ''{'' then Some ([TLBrace], LIdle)
      else if c = CHR ''}'' then Some ([TRBrace], LIdle)
      else if c = CHR '','' then Some ([TComma], LIdle)
      else if c = CHR '';'' then Some ([TSemi], LIdle)
      else if c = CHR ''+'' then (if take 1 rest = ''+'' then None else Some ([TPlus], LIdle))
      else if c = CHR ''-'' then (if take 1 rest = ''-'' then None else Some ([TMinus], LIdle))
      else if c = CHR ''*'' then (if take 1 rest = ''*'' then Some ([], LStar) else Some ([TStar], LIdle))
      else if c = CHR ''/'' then
        (if take 1 rest = ''/'' \<or> take 1 rest = ''*'' then None else Some ([TSlash], LIdle))
      else if c = CHR ''.'' then
        (if take 1 rest = ''.'' \<or> (rest \<noteq> [] \<and> is_digit (hd rest)) then None else Some ([TDot], LIdle))
      else None)"

definition close_then_start :: "lexstate \<Rightarrow> char \<Rightarrow> string \<Rightarrow> (token list \<times> lexstate) option" where
  "close_then_start st c rest =
     (case close_lexeme st of
        None \<Rightarrow> None
      | Some ts \<Rightarrow> (case start_lexeme c rest of None \<Rightarrow> None | Some (ts', st') \<Rightarrow> Some (ts @ ts', st')))"

fun lex_step :: "lexstate \<Rightarrow> char \<Rightarrow> string \<Rightarrow> (token list \<times> lexstate) option" where
  "lex_step LIdle c rest = start_lexeme c rest"
| "lex_step (LInt ds) c rest =
     (if is_digit c then Some ([], LInt (ds @ [c]))
      else if c = CHR ''.'' then Some ([], LDot ds)
      else if c = CHR ''n'' then Some ([], LBig ds)
      else if is_letter c then None
      else close_then_start (LInt ds) c rest)"
| "lex_step (LDot ds) c rest = (if is_digit c then Some ([], LFrac ds [c]) else None)"
| "lex_step (LFrac ds fs) c rest =
     (if is_digit c then Some ([], LFrac ds (fs @ [c]))
      else if is_letter c then None
      else close_then_start (LFrac ds fs) c rest)"
| "lex_step (LBig ds) c rest =
     (if is_letter c \<or> is_digit c then None else close_then_start (LBig ds) c rest)"
| "lex_step (LId s) c rest =
     (if is_letter c \<or> is_digit c then Some ([], LId (s @ [c]))
      else close_then_start (LId s) c rest)"
| "lex_step LStar c rest = (if c = CHR ''*'' then Some ([TPow], LIdle) else None)"

fun lex :: "lexstate \<Rightarrow> string \<Rightarrow> token list option" where
  "lex st [] = close_lexeme st"
| "lex st (c # cs) =
     (case lex_step st c cs of
        None \<Rightarrow> None
      | Some (ts, st') \<Rightarrow> (case lex st' cs of None \<Rightarrow> None | Some r \<Rightarrow> Some (ts @ r)))"

text \<open>Expressions and statements of the fragment.\<close>

datatype binop = OpAdd | OpSub | OpMul | OpDiv | OpPow

datatype expr =
    ENum string string
  | EBig string
  | EId string
  | EMember expr string
  | ECall expr "expr list"
  | EFunction "stmt list"
  | ENeg expr
  | EPlus expr
  | EBin binop expr expr
and stmt = SEmpty | SExpr expr | SReturn "expr option" | SForever

text \<open>
  The parser is a recursive descent with the precedences of the language: additive
  below multiplicative below \<^verbatim>\<open>**\<close> and unary below call and member access. \<^verbatim>\<open>**\<close>
  groups to the right, and its left operand may not start with a unary operator
  (\<^verbatim>\<open>-2 ** 2\<close> is a \<^verbatim>\<open>SyntaxError\<close>). The classifiers
  below look at the next tokens; the parsers proper follow. A parser that runs out of
  its depth bound answers \<open>Unmodelled\<close>. A statement ends at \<^verbatim>\<open>;\<close>, before \<^verbatim>\<open>}\<close> or
  at the end of the text.
\<close>

definition end_stmt :: "stmt \<Rightarrow> token list \<Rightarrow> (stmt \<times> token list) outcome" where
  "end_stmt s ts =
     (case ts of
        [] \<Rightarrow> Returns (s, [])
      | TSemi # r \<Rightarrow> Returns (s, r)
      | TRBrace # r \<Rightarrow> Returns (s, ts)
      | TComma # r \<Rightarrow> Unmodelled
      | _ \<Rightarrow> Throws SyntaxError)"

definition add_op :: "token list \<Rightarrow> (binop \<times> token list) option" where
  "add_op ts = (case ts of TPlus # r \<Rightarrow> Some (OpAdd, r) | TMinus # r \<Rightarrow> Some (OpSub, r) | _ \<Rightarrow> None)"

definition mul_op :: "token list \<Rightarrow> (binop \<times> token list) option" where
  "mul_op ts = (case ts of TStar # r \<Rightarrow> Some (OpMul, r) | TSlash # r \<Rightarrow> Some (OpDiv, r) | _ \<Rightarrow> None)"

definition unary_op :: "token list \<Rightarrow> ((expr \<Rightarrow> expr) \<times> token list) option" where
  "unary_op ts = (case ts of TMinus # r \<Rightarrow> Some (ENeg, r) | TPlus # r \<Rightarrow> Some (EPlus, r) | _ \<Rightarrow> None)"

definition pow_op :: "token list \<Rightarrow> token list option" where
  "pow_op ts = (case ts of TPow # r \<Rightarrow> Some r | _ \<Rightarrow> None)"

datatype postfix = PCall "token list" | PMember string "token list" | PBadDot | PNone

definition postfix_of :: "token list \<Rightarrow> postfix" where
  "postfix_of ts =
     (case ts of
        TLParen # r \<Rightarrow> PCall r
      | TDot # TId s # r \<Rightarrow> PMember s r
      | TDot # r \<Rightarrow> PBadDot
      | _ \<Rightarrow> PNone)"

datatype closing = CMore "token list" | CDone "token list" | CUnmodelled | CBad

definition close_arg :: "token list \<Rightarrow> closing" where
  "close_arg ts = (case ts of TComma # r \<Rightarrow> CMore r | TRParen # r \<Rightarrow> CDone r | _ \<Rightarrow> CBad)"

definition close_paren :: "token list \<Rightarrow> closing" where
  "close_paren ts = (case ts of TRParen # r \<Rightarrow> CDone r | TComma # r \<Rightarrow> CUnmodelled | _ \<Rightarrow> CBad)"

definition close_brace :: "token list \<Rightarrow> closing" where
  "close_brace ts = (case ts of TRBrace # r \<Rightarrow> CDone r | _ \<Rightarrow> CBad)"

datatype primary =
    PrimNum string string "token list" | PrimBig string "token list" | PrimId string "token list"
  | PrimFunction "token list" | PrimParen "token list" | PrimUnmodelled | PrimBad

definition primary_of :: "token list \<Rightarrow> primary" where
  "primary_of ts =
     (case ts of
        TNum ds fs # r \<Rightarrow> PrimNum ds fs r
      | TBig ds # r \<Rightarrow> PrimBig ds r
      | TId s # r \<Rightarrow>
          if s = ''function'' then PrimFunction r
          else if s = ''for'' \<or> s = ''return'' then PrimBad
          else PrimId s r
      | TLParen # r \<Rightarrow> PrimParen r
      | TSlash # r \<Rightarrow> PrimUnmodelled
      | TLBrace # r \<Rightarrow> PrimUnmodelled
      | _ \<Rightarrow> PrimBad)"

definition function_header :: "token list \<Rightarrow> token list option" where
  "function_header ts = (case ts of TLParen # TRParen # TLBrace # r \<Rightarrow> Some r | _ \<Rightarrow> None)"

definition body_ends :: "token list \<Rightarrow> bool" where
  "body_ends ts = (case ts of [] \<Rightarrow> True | TRBrace # r \<Rightarrow> True | _ \<Rightarrow> False)"

datatype stmt_start =
    StDone stmt "token list" | StReturn "token list" | StExpr | StUnmodelled

definition return_of :: "token list \<Rightarrow> stmt_start" where
  "return_of r =
     (case r of
        [] \<Rightarrow> StDone (SReturn None) []
      | TSemi # r' \<Rightarrow> StDone (SReturn None) r'
      | TRBrace # r' \<Rightarrow> StDone (SReturn None) r
      | _ \<Rightarrow> StReturn r)"

definition for_of :: "token list \<Rightarrow> stmt_start" where
  "for_of r =
     (case r of
        TLParen # TSemi # TSemi # TRParen # TSemi # r' \<Rightarrow> StDone SForever r'
      | _ \<Rightarrow> StUnmodelled)"

definition stmt_start_of :: "token list \<Rightarrow> stmt_start" where
  "stmt_start_of ts =
     (case ts of
        TSemi # r \<Rightarrow> StDone SEmpty r
      | TLBrace # r \<Rightarrow> StUnmodelled
      | TId s # r \<Rightarrow>
          if s = ''return'' then return_of r
          else if s = ''for'' then for_of r
          else if s = ''function'' then StUnmodelled
          else StExpr
      | _ \<Rightarrow> StExpr)"

type_synonym 'a parser = "token list \<Rightarrow> ('a \<times> token list) outcome"

primrec binary_rest ::
  "nat \<Rightarrow> (token list \<Rightarrow> (binop \<times> token list) option) \<Rightarrow> expr parser \<Rightarrow> expr \<Rightarrow> expr parser" where
  "binary_rest 0 ops operand l ts = Unmodelled"
| "binary_rest (Suc k) ops operand l ts =
     (case ops ts of
        Some (op, r) \<Rightarrow> obind (operand r) (\<lambda>(e, r'). binary_rest k ops operand (EBin op l e) r')
      | None \<Rightarrow> Returns (l, ts))"

definition binary_level ::
  "nat \<Rightarrow> (token list \<Rightarrow> (binop \<times> token list) option) \<Rightarrow> expr parser \<Rightarrow> expr parser" where
  "binary_level k ops operand ts = obind (operand ts) (\<lambda>(l, r). binary_rest k ops operand l r)"

primrec parse_unary :: "nat \<Rightarrow> expr parser \<Rightarrow> expr parser" where
  "parse_unary 0 operand ts = Unmodelled"
| "parse_unary (Suc k) operand ts =
     (case unary_op ts of
        Some (op, r) \<Rightarrow> obind (parse_unary k operand r) (\<lambda>(e, r'). Returns (op e, r'))
      | None \<Rightarrow> operand ts)"

primrec parse_power :: "nat \<Rightarrow> expr parser \<Rightarrow> expr parser" where
  "parse_power 0 operand ts = Unmodelled"
| "parse_power (Suc k) operand ts =
     (case unary_op ts of
        Some (op, r) \<Rightarrow>
          obind (parse_unary (Suc k) operand ts) (\<lambda>(e, r').
            case pow_op r' of Some r'' \<Rightarrow> Throws SyntaxError | None \<Rightarrow> Returns (e, r'))
      | None \<Rightarrow>
          obind (operand ts) (\<lambda>(e, r').
            case pow_op r' of
              Some r'' \<Rightarrow> obind (parse_power k operand r'') (\<lambda>(e', r3). Returns (EBin OpPow e e', r3))
            | None \<Rightarrow> Returns (e, r')))"

primrec parse_args :: "nat \<Rightarrow> expr parser \<Rightarrow> (expr list) parser" where
  "parse_args 0 pe ts = Unmodelled"
| "parse_args (Suc k) pe ts =
     (case close_paren ts of
        CDone r \<Rightarrow> Returns ([], r)
      | _ \<Rightarrow> obind (pe ts) (\<lambda>(e, r).
          case close_arg r of
            CMore r' \<Rightarrow> obind (parse_args k pe r') (\<lambda>(es, r''). Returns (e # es, r''))
          | CDone r' \<Rightarrow> Returns ([e], r')
          | _ \<Rightarrow> Throws SyntaxError))"

primrec parse_postfix :: "nat \<Rightarrow> expr parser \<Rightarrow> expr \<Rightarrow> expr parser" where
  "parse_postfix 0 pe e ts = Unmodelled"
| "parse_postfix (Suc k) pe e ts =
     (case postfix_of ts of
        PCall r \<Rightarrow> obind (parse_args k pe r) (\<lambda>(args, r'). parse_postfix k pe (ECall e args) r')
      | PMember s r \<Rightarrow> parse_postfix k pe (EMember e s) r
      | PBadDot \<Rightarrow> Throws SyntaxError
      | PNone \<Rightarrow> Returns (e, ts))"

definition parse_primary :: "expr parser \<Rightarrow> (stmt list) parser \<Rightarrow> expr parser" where
  "parse_primary pe pb ts =
     (case primary_of ts of
        PrimNum ds fs r \<Rightarrow> Returns (ENum ds fs, r)
      | PrimBig ds r \<Rightarrow> Returns (EBig ds, r)
      | PrimId s r \<Rightarrow> Returns (EId s, r)
      | PrimFunction r \<Rightarrow>
          (case function_header r of
             None \<Rightarrow> Unmodelled
           | Some r' \<Rightarrow> obind (pb r') (\<lambda>(b, r'').
               case close_brace r'' of CDone r3 \<Rightarrow> Returns (EFunction b, r3) | _ \<Rightarrow> Throws SyntaxError))
      | PrimParen r \<Rightarrow> obind (pe r) (\<lambda>(e, r').
          case close_paren r' of
            CDone r'' \<Rightarrow> Returns (e, r'')
          | CUnmodelled \<Rightarrow> Unmodelled
          | _ \<Rightarrow> Throws SyntaxError)
      | PrimUnmodelled \<Rightarrow> Unmodelled
      | PrimBad \<Rightarrow> Throws SyntaxError)"

definition parse_stmt :: "expr parser \<Rightarrow> stmt parser" where
  "parse_stmt pe ts =
     (case stmt_start_of ts of
        StDone s r \<Rightarrow> Returns (s, r)
      | StReturn r \<Rightarrow> obind (pe r) (\<lambda>(e, r'). end_stmt (SReturn (Some e)) r')
      | StExpr \<Rightarrow> obind (pe ts) (\<lambda>(e, r'). end_stmt (SExpr e) r')
      | StUnmodelled \<Rightarrow> Unmodelled)"

primrec parse_stmts :: "nat \<Rightarrow> stmt parser \<Rightarrow> (stmt list) parser" where
  "parse_stmts 0 ps ts = Unmodelled"
| "parse_stmts (Suc k) ps ts =
     (if body_ends ts then Returns ([], ts)
      else obind (ps ts) (\<lambda>(s, r). obind (parse_stmts k ps r) (\<lambda>(ss, r'). Returns (s # ss, r'))))"

primrec parse_expr :: "nat \<Rightarrow> expr parser" where
  "parse_expr 0 ts = Unmodelled"
| "parse_expr (Suc n) ts =
     binary_level n add_op
       (binary_level n mul_op
         (parse_power n
           (\<lambda>ts'. obind (parse_primary (parse_expr n) (parse_stmts n (parse_stmt (parse_expr n))) ts')
                    (\<lambda>(e, r). parse_postfix n (parse_expr n) e r)))) ts"

definition parse_body :: "nat \<Rightarrow> (stmt list) parser" where
  "parse_body n = parse_stmts n (parse_stmt (parse_expr n))"

definition parse_program :: "token list \<Rightarrow> stmt list outcome" where
  "parse_program ts =
     obind (parse_body (2 * length ts + 2) ts)
       (\<lambda>(b, r). if r = [] then Returns b else Throws SyntaxError)"

text \<open>
  Values: numbers, BigInts, \<^verbatim>\<open>undefined\<close>, the \<^verbatim>\<open>Math\<close> object, its six functions
  that the replacements name, and function values. Converted to a number, a BigInt
  throws a \<^verbatim>\<open>TypeError\<close> and everything else but a number is \<open>NaN\<close>. Identifiers
  other than \<^verbatim>\<open>Math\<close>, \<^verbatim>\<open>NaN\<close>, \<^verbatim>\<open>Infinity\<close> and \<^verbatim>\<open>undefined\<close> would be looked up
  among the globals of the page and are unmodelled, as are \<^verbatim>\<open>+\<close> on an object or a
  function (string concatenation) and the arithmetic of two BigInts. An operator
  with one BigInt operand and one that converts to a number throws a \<^verbatim>\<open>TypeError\<close>.
\<close>

datatype jsval =
  VNum jsnum | VBigInt int | VUndefined | VMath | VBuiltin builtin | VFunction "stmt list"

fun ToNumber :: "jsval \<Rightarrow> jsnum outcome" where
  "ToNumber (VNum n) = Returns n"
| "ToNumber (VBigInt n) = Throws TypeError"
| "ToNumber v = Returns NaN"

definition digit_value :: "char \<Rightarrow> nat" where
  "digit_value c = length (takeWhile (\<lambda>d. d \<noteq> c) ''0123456789'')"

definition digits_value :: "string \<Rightarrow> nat" where
  "digits_value ds = foldl (\<lambda>n c. 10 * n + digit_value c) 0 ds"

definition decimal_value :: "string \<Rightarrow> string \<Rightarrow> real" where
  "decimal_value ds fs = real (digits_value ds) + real (digits_value fs) / 10 ^ length fs"

definition math_member :: "string \<Rightarrow> builtin option" where
  "math_member s =
     (if s = ''sin'' then Some BSin else if s = ''cos'' then Some BCos
      else if s = ''tan'' then Some BTan else if s = ''sqrt'' then Some BSqrt
      else if s = ''exp'' then Some BExp else if s = ''abs'' then Some BAbs else None)"

fun numeric :: "jsval \<Rightarrow> bool" where
  "numeric (VNum n) = True"
| "numeric VUndefined = True"
| "numeric v = False"

fun is_bigint :: "jsval \<Rightarrow> bool" where
  "is_bigint (VBigInt n) = True"
| "is_bigint v = False"

fun number_op :: "engine \<Rightarrow> binop \<Rightarrow> jsnum \<Rightarrow> jsnum \<Rightarrow> jsnum" where
  "number_op E OpAdd a b = js_add a b"
| "number_op E OpSub a b = js_sub a b"
| "number_op E OpMul a b = js_mul a b"
| "number_op E OpDiv a b = js_div a b"
| "number_op E OpPow a b = js_pow E a b"

definition binary :: "engine \<Rightarrow> binop \<Rightarrow> jsval \<Rightarrow> jsval \<Rightarrow> jsval outcome" where
  "binary E op a b =
     (if op = OpAdd \<and> \<not> ((numeric a \<or> is_bigint a) \<and> (numeric b \<or> is_bigint b)) then Unmodelled
      else if is_bigint a \<and> is_bigint b then Unmodelled
      else if is_bigint a \<or> is_bigint b then Throws TypeError
      else obind (ToNumber a) (\<lambda>x. obind (ToNumber b) (\<lambda>y. Returns (VNum (number_op E op x y)))))"

fun call_value :: "engine \<Rightarrow> jsval \<Rightarrow> jsval list \<Rightarrow> jsval outcome" where
  "call_value E (VBuiltin b) [] = Returns (VNum (js_math E b NaN))"
| "call_value E (VBuiltin b) (v # vs) = obind (ToNumber v) (\<lambda>n. Returns (VNum (js_math E b n)))"
| "call_value E (VFunction body) vs = Unmodelled"
| "call_value E v vs = Throws TypeError"

fun negate :: "jsval \<Rightarrow> jsval outcome" where
  "negate (VBigInt n) = Returns (VBigInt (- n))"
| "negate v = obind (ToNumber v) (\<lambda>n. Returns (VNum (js_neg n)))"

fun eval_expr :: "engine \<Rightarrow> expr \<Rightarrow> jsval outcome"
and eval_args :: "engine \<Rightarrow> expr list \<Rightarrow> jsval list outcome"
and exec_body :: "engine \<Rightarrow> stmt list \<Rightarrow> jsval outcome"
where
  "eval_expr E (ENum ds fs) = Returns (VNum (number_value (decimal_value ds fs)))"
| "eval_expr E (EBig ds) = Returns (VBigInt (int (digits_value ds)))"
| "eval_expr E (EId s) =
     (if s = ''Math'' then Returns VMath
      else if s = ''NaN'' then Returns (VNum NaN)
      else if s = ''Infinity'' then Returns (VNum PosInf)
      else if s = ''undefined'' then Returns VUndefined
      else Unmodelled)"
| "eval_expr E (EMember e s) =
     obind (eval_expr E e) (\<lambda>v.
       case v of
         VMath \<Rightarrow> (case math_member s of Some b \<Rightarrow> Returns (VBuiltin b) | None \<Rightarrow> Unmodelled)
       | VUndefined \<Rightarrow> Throws TypeError
       | _ \<Rightarrow> Unmodelled)"
| "eval_expr E (ECall (EFunction body) args) = obind (eval_args E args) (\<lambda>vs. exec_body E body)"
| "eval_expr E (ECall f args) =
     obind (eval_expr E f) (\<lambda>fv. obind (eval_args E args) (\<lambda>vs. call_value E fv vs))"
| "eval_expr E (EFunction body) = Returns (VFunction body)"
| "eval_expr E (ENeg e) = obind (eval_expr E e) negate"
| "eval_expr E (EPlus e) = obind (eval_expr E e) (\<lambda>v. obind (ToNumber v) (\<lambda>n. Returns (VNum n)))"
| "eval_expr E (EBin op a b) =
     obind (eval_expr E a) (\<lambda>va. obind (eval_expr E b) (\<lambda>vb. binary E op va vb))"
| "eval_args E [] = Returns []"
| "eval_args E (e # es) =
     obind (eval_expr E e) (\<lambda>v. obind (eval_args E es) (\<lambda>vs. Returns (v # vs)))"
| "exec_body E [] = Returns VUndefined"
| "exec_body E (SEmpty # ss) = exec_body E ss"
| "exec_body E (SExpr e # ss) = obind (eval_expr E e) (\<lambda>v. exec_body E ss)"
| "exec_body E (SReturn None # ss) = Returns VUndefined"
| "exec_body E (SReturn (Some e) # ss) = eval_expr E e"
| "exec_body E (SForever # ss) = Diverges"

text \<open>
  \<open>js_Function E body\<close> is \<^verbatim>\<open>Function(body)()\<close> for a body that starts with the
  directive \<^verbatim>\<open>"use strict";\<close>.
\<close>

definition use_strict :: string where
  "use_strict = [CHR 0x22] @ ''use strict'' @ [CHR 0x22] @ '';''"

definition js_parse :: "string \<Rightarrow> stmt list outcome" where
  "js_parse body =
     (if take (length use_strict) body = use_strict
      then (case lex LIdle (drop (length use_strict) body) of
              None \<Rightarrow> Unmodelled
            | Some ts \<Rightarrow> parse_program ts)
      else Unmodelled)"

definition js_Function :: "engine \<Rightarrow> string \<Rightarrow> jsval outcome" where
  "js_Function E body = obind (js_parse body) (exec_body E)"


subsection \<open>\<^verbatim>\<open>evaluateExpression\<close> and \<^verbatim>\<open>compareAnswers\<close>\<close>

text \<open>
  \<open>program_text\<close> is the argument of the \<^verbatim>\<open>Function\<close> constructor. The \<^verbatim>\<open>try\<close> block
  returns what the call returns; the \<^verbatim>\<open>catch\<close> block logs the error with
  \<^verbatim>\<open>console.error\<close> and returns \<open>NaN\<close>. The result carries the value and the errors
  logged.
\<close>

definition program_text :: "string \<Rightarrow> int \<Rightarrow> int \<Rightarrow> string" where
  "program_text expr x y = use_strict @ '' return ('' @ substitute expr x y @ '')''"

definition evaluateExpression ::
  "engine \<Rightarrow> string \<Rightarrow> int \<Rightarrow> int \<Rightarrow> (jsval \<times> js_error list) outcome" where
  "evaluateExpression E expr x y =
     (case js_Function E (program_text expr x y) of
        Returns v \<Rightarrow> Returns (v, [])
      | Throws err \<Rightarrow> Returns (VNum NaN, [err])
      | Diverges \<Rightarrow> Diverges
      | Unmodelled \<Rightarrow> Unmodelled)"

text \<open>
  \<^verbatim>\<open>Math.abs(a - b) < tolerance\<close> on numbers, the comparison of \<^verbatim>\<open>compareAnswers\<close> and
  of \<^verbatim>\<open>checkAnswer\<close>: the difference is rounded, and the tolerance is a double.
\<close>

definition within_tolerance :: "jsnum \<Rightarrow> jsnum \<Rightarrow> jsnum \<Rightarrow> bool" where
  "within_tolerance a b tolerance = js_lt (js_abs (js_sub a b)) tolerance"

text \<open>
  \<^verbatim>\<open>compareAnswers(userAnswer, correctAnswer, tolerance = 0.01)\<close>; \<open>None\<close> is the
  omitted third argument. \<^verbatim>\<open>isNaN\<close> converts its argument to a number, and \<^verbatim>\<open>||\<close>
  evaluates its right operand only when the left one is false. No function of the
  program calls \<^verbatim>\<open>compareAnswers\<close>.
\<close>

definition compareAnswers ::
  "engine \<Rightarrow> string \<Rightarrow> string \<Rightarrow> jsnum option \<Rightarrow> (bool \<times> js_error list) outcome" where
  "compareAnswers E userAnswer correctAnswer tolerance =
     obind (evaluateExpression E userAnswer 1 1) (\<lambda>(userNum, log1).
     obind (evaluateExpression E correctAnswer 1 1) (\<lambda>(correctNum, log2).
     obind (ToNumber userNum) (\<lambda>u.
       if js_isNaN u then Returns (False, log1 @ log2)
       else obind (ToNumber correctNum) (\<lambda>c.
         if js_isNaN c then Returns (False, log1 @ log2)
         else Returns (within_tolerance u c
                         (case tolerance of None \<Rightarrow> number_value (1 / 100) | Some t \<Rightarrow> t),
                       log1 @ log2)))))"

subsection \<open>The session (\<^verbatim>\<open>STATE\<close>) and \<^verbatim>\<open>checkAnswer\<close>\<close>

text \<open>
  \<^verbatim>\<open>STATE.stats\<close> and \<^verbatim>\<open>STATE.currentQuestion\<close>, with what \<^verbatim>\<open>checkAnswer\<close> does to
  the page: the console, the alerts shown, the verdicts handed to
  \<^verbatim>\<open>displayFeedback\<close>, and whether the answer inputs and the submit button are
  displayed. The question's field \<^verbatim>\<open>correct\<close> is \<open>verdict\<close> here (\<open>None\<close> for \<^verbatim>\<open>null\<close>),
  since the counter of \<^verbatim>\<open>stats\<close> has the same name. \<^verbatim>\<open>STATE.currentFunction\<close> and
  \<^verbatim>\<open>STATE.currentPoint\<close> belong to the plot and are not read by \<^verbatim>\<open>checkAnswer\<close>.
\<close>

record stats =
  correct :: nat
  attempted :: nat

record question =
  functionKey :: family
  func :: func
  point :: "int \<times> int"
  answered :: bool
  verdict :: "bool option"

record state =
  currentQuestion :: "question option"
  stats :: stats
  console :: "js_error list"
  alerts :: "string list"
  feedback :: "(bool \<times> bool \<times> bool) option"
  answerInputShown :: bool
  submitShown :: bool

text \<open>
  \<^verbatim>\<open>String.prototype.trim\<close> removes white space and line terminators from both ends.
  In UTF-8 these are the six one-byte characters and the encodings of U+00A0,
  U+1680, U+2000 to U+200A, U+2028, U+2029, U+202F, U+205F, U+3000 and U+FEFF.
  \<open>space_prefix ws s\<close> is the length of the member of \<open>ws\<close> that \<open>s\<close> starts with.
\<close>

definition white_space :: "string list" where
  "white_space =
     [[CHR 0x20], [CHR 0x09], [CHR 0x0A], [CHR 0x0B], [CHR 0x0C], [CHR 0x0D],
      [CHR 0xC2, CHR 0xA0], [CHR 0xE1, CHR 0x9A, CHR 0x80],
      [CHR 0xE2, CHR 0x80, CHR 0x80], [CHR 0xE2, CHR 0x80, CHR 0x81], [CHR 0xE2, CHR 0x80, CHR 0x82],
      [CHR 0xE2, CHR 0x80, CHR 0x83], [CHR 0xE2, CHR 0x80, CHR 0x84], [CHR 0xE2, CHR 0x80, CHR 0x85],
      [CHR 0xE2, CHR 0x80, CHR 0x86], [CHR 0xE2, CHR 0x80, CHR 0x87], [CHR 0xE2, CHR 0x80, CHR 0x88],
      [CHR 0xE2, CHR 0x80, CHR 0x89], [CHR 0xE2, CHR 0x80, CHR 0x8A],
      [CHR 0xE2, CHR 0x80, CHR 0xA8], [CHR 0xE2, CHR 0x80, CHR 0xA9], [CHR 0xE2, CHR 0x80, CHR 0xAF],
      [CHR 0xE2, CHR 0x81, CHR 0x9F], [CHR 0xE3, CHR 0x80, CHR 0x80], [CHR 0xEF, CHR 0xBB, CHR 0xBF]]"

definition space_prefix :: "string list \<Rightarrow> string \<Rightarrow> nat option" where
  "space_prefix ws s = map_option length (find (\<lambda>w. take (length w) s = w) ws)"

fun trim_start :: "string list \<Rightarrow> string \<Rightarrow> string" where
  "trim_start ws [] = []"
| "trim_start ws (c # cs) =
     (case space_prefix ws (c # cs) of
        None \<Rightarrow> c # cs
      | Some n \<Rightarrow> trim_start ws (drop (n - 1) cs))"

definition trim :: "string \<Rightarrow> string" where
  "trim s = rev (trim_start (map rev white_space) (rev (trim_start white_space s)))"

text \<open>
  \<^verbatim>\<open>checkAnswer\<close> reads the two answer fields, its arguments here. With an empty
  field it alerts and returns. \<^verbatim>\<open>STATE.currentQuestion.func\<close> throws a
  \<^verbatim>\<open>TypeError\<close> when no question has been generated yet. Otherwise it computes the
  analytic values at the question's point, evaluates both answers there, compares,
  counts, hands the verdicts to \<^verbatim>\<open>displayFeedback\<close>, marks the question and swaps the
  input area for the feedback. The subtraction \<^verbatim>\<open>userDfDxValue - correctDfDx\<close> converts
  the learner's value to a number, outside any \<^verbatim>\<open>try\<close>; the tolerance is the double
  nearest to 0.05.
\<close>

definition grading_tolerance :: jsnum where
  "grading_tolerance = number_value (5 / 100)"

definition checkAnswer :: "engine \<Rightarrow> string \<Rightarrow> string \<Rightarrow> state \<Rightarrow> state outcome" where
  "checkAnswer E answerDfDx answerDfDy S =
     (let userDfDx = trim answerDfDx; userDfDy = trim answerDfDy in
      if userDfDx = [] \<or> userDfDy = []
      then Returns (S\<lparr>alerts := alerts S @ [''Please fill in both partial derivatives.'']\<rparr>)
      else case currentQuestion S of
        None \<Rightarrow> Throws TypeError
      | Some q \<Rightarrow>
          (let f = func q; x = fst (point q); y = snd (point q);
               correctDfDx = partialXValue64 E f (js_int x) (js_int y);
               correctDfDy = partialYValue64 E f (js_int x) (js_int y)
           in obind (evaluateExpression E userDfDx x y) (\<lambda>(userDfDxValue, log1).
              obind (evaluateExpression E userDfDy x y) (\<lambda>(userDfDyValue, log2).
              obind (ToNumber userDfDxValue) (\<lambda>u.
              obind (ToNumber userDfDyValue) (\<lambda>v.
                let dfdxCorrect = within_tolerance u correctDfDx grading_tolerance;
                    dfdyCorrect = within_tolerance v correctDfDy grading_tolerance;
                    allCorrect = (dfdxCorrect \<and> dfdyCorrect)
                in Returns (S\<lparr>
                     stats := \<lparr>correct = (if allCorrect then correct (stats S) + 1 else correct (stats S)),
                               attempted = attempted (stats S) + 1\<rparr>,
                     console := console S @ log1 @ log2,
                     feedback := Some (dfdxCorrect, dfdyCorrect, allCorrect),
                     currentQuestion := Some (q\<lparr>answered := True, verdict := Some allCorrect\<rparr>),
                     answerInputShown := False,
                     submitShown := False\<rparr>)))))))"

text \<open>
  The object \<^verbatim>\<open>generateNewQuestion\<close> stores in \<^verbatim>\<open>STATE.currentQuestion\<close>, and the
  session after the first question has been posed: the counters are the 0 of
  \<^verbatim>\<open>STATE\<close>'s initialiser, nothing has been logged or alerted, and the answer inputs
  and the submit button are displayed, as the last lines of \<^verbatim>\<open>generateNewQuestion\<close>
  leave them. (The coefficients and the point it draws are taken as given here.)
\<close>

definition new_question :: "family \<Rightarrow> func \<Rightarrow> int \<times> int \<Rightarrow> question" where
  "new_question funcKey f p =
     \<lparr>functionKey = funcKey, func = f, point = p, answered = False, verdict = None\<rparr>"

definition first_question :: "question \<Rightarrow> state" where
  "first_question q =
     \<lparr>currentQuestion = Some q, stats = \<lparr>correct = 0, attempted = 0\<rparr>, console = [], alerts = [],
      feedback = None, answerInputShown = True, submitShown = True\<rparr>"

section \<open>Properties of the catalog\<close>

text \<open>
  Claim C1. For every family and every choice of coefficients within the declared
  ranges, \<open>partialXValue\<close> and \<open>partialYValue\<close> are the partial derivatives of
  \<open>evaluate\<close> at every point: the derivative in the first argument with the second
  fixed, and the derivative in the second with the first fixed. For the saddle with
  \<open>a = 2\<close>, \<open>b = 1\<close> at \<open>(1, -1)\<close> the three operations return 1, 4 and 2.
\<close>

theorem partials_are_derivatives:
  assumes "declared_ranges f"
  shows "((\<lambda>t. evaluate f t y) has_real_derivative partialXValue f x y) (at x)
       \<and> ((\<lambda>t. evaluate f x t) has_real_derivative partialYValue f x y) (at y)
       \<and> evaluate (Saddle 2 1) 1 (-1) = 1
       \<and> partialXValue (Saddle 2 1) 1 (-1) = 4
       \<and> partialYValue (Saddle 2 1) 1 (-1) = 2"
proof -
  have "((\<lambda>t. evaluate f t y) has_real_derivative partialXValue f x y) (at x)
       \<and> ((\<lambda>t. evaluate f x t) has_real_derivative partialYValue f x y) (at y)"
  proof (cases f)
    case (Exponential a c d)
    with assms have c: "c \<noteq> 0" by (simp add: in_interval_def)
    show ?thesis unfolding Exponential using c
      by (auto intro!: derivative_eq_intros simp: algebra_simps)
  qed (auto intro!: derivative_eq_intros simp: algebra_simps)
  then show ?thesis by simp
qed

theorem partials_are_derivatives_witness:
  "declared_ranges (Exponential 2 3 (-1))
   \<and> ((\<lambda>t. evaluate (Exponential 2 3 (-1)) t 0) has_real_derivative
        partialXValue (Exponential 2 3 (-1)) 1 0) (at 1)
   \<and> partialXValue (Exponential 2 3 (-1)) 1 0 = 2 * exp (- 1 / 3) * (- 2 / 3)"
proof -
  have h: "declared_ranges (Exponential 2 3 (-1))"
    by (simp add: in_interval_def)
  from partials_are_derivatives [OF h, of 0 1] h show ?thesis
    by simp
qed

subsection \<open>Coefficient generation\<close>






text \<open>
  The loop of \<^verbatim>\<open>randomInt\<close> re-samples until a draw is not the excluded value: it
  returns as soon as the source holds one such draw.
\<close>

lemma randomInt_loop_returns:
  "Some num \<noteq> ex \<or> Some (scale_draw mn mx (rs !! k)) \<noteq> ex \<Longrightarrow>
   \<exists>n rs'. randomInt_loop mn mx ex num rs = Some (n, rs')"
proof (induction k arbitrary: num rs)
  case 0
  then show ?case
    by (cases "Some num = ex")
       (simp_all add: randomInt_loop.simps [of mn mx ex num] randomInt_loop.simps [of mn mx ex "scale_draw mn mx (shd rs)"])
next
  case (Suc k)
  show ?case
  proof (cases "Some num = ex")
    case False
    then show ?thesis by (simp add: randomInt_loop.simps [of mn mx ex num])
  next
    case True
    with Suc.prems have "Some (scale_draw mn mx (stl rs !! k)) \<noteq> ex" by simp
    then have "\<exists>n rs'. randomInt_loop mn mx ex (scale_draw mn mx (shd rs)) (stl rs) = Some (n, rs')"
      using Suc.IH by blast
    with True show ?thesis by (simp add: randomInt_loop.simps [of mn mx ex num])
  qed
qed

lemma randomInt_returns:
  assumes "Some (scale_draw mn mx (rs !! k)) \<noteq> ex"
  shows "\<exists>n rs'. randomInt mn mx ex rs = Some (n, rs')"
proof (cases k)
  case 0
  with assms show ?thesis
    unfolding randomInt_def using randomInt_loop_returns [of "scale_draw mn mx (shd rs)" ex mn mx "stl rs" 0]
    by simp
next
  case (Suc j)
  with assms show ?thesis
    unfolding randomInt_def using randomInt_loop_returns [of "scale_draw mn mx (shd rs)" ex mn mx "stl rs" j]
    by simp
qed



text \<open>
  When \<^verbatim>\<open>randomInt\<close> returns, its result is the first draw of the source that is not
  the excluded value, every draw before it was the excluded value, and the source is
  left just after that draw.
\<close>

lemma randomInt_loop_first:
  assumes major: "randomInt_loop mn mx ex num rs = Some y"
  shows "\<exists>k. (\<forall>j<k. Some ((num ## smap (scale_draw mn mx) rs) !! j) = ex)
            \<and> fst y = (num ## smap (scale_draw mn mx) rs) !! k
            \<and> Some (fst y) \<noteq> ex
            \<and> snd y = sdrop k rs"
proof (rule randomInt_loop.raw_induct [where P = "\<lambda>mn mx ex num rs y.
    \<exists>k. (\<forall>j<k. Some ((num ## smap (scale_draw mn mx) rs) !! j) = ex)
            \<and> fst y = (num ## smap (scale_draw mn mx) rs) !! k
            \<and> Some (fst y) \<noteq> ex
            \<and> snd y = sdrop k rs", OF _ major])
  fix loop :: "int \<Rightarrow> int \<Rightarrow> int option \<Rightarrow> int \<Rightarrow> real stream \<Rightarrow> (int \<times> real stream) option"
    and mn mx ex num rs y
  assume IH: "\<And>mn mx ex num rs y. loop mn mx ex num rs = Some y \<Longrightarrow>
      \<exists>k. (\<forall>j<k. Some ((num ## smap (scale_draw mn mx) rs) !! j) = ex)
            \<and> fst y = (num ## smap (scale_draw mn mx) rs) !! k
            \<and> Some (fst y) \<noteq> ex
            \<and> snd y = sdrop k rs"
    and unf: "(if Some num = ex then loop mn mx ex (scale_draw mn mx (shd rs)) (stl rs)
               else Some (num, rs)) = Some y"
  show "\<exists>k. (\<forall>j<k. Some ((num ## smap (scale_draw mn mx) rs) !! j) = ex)
            \<and> fst y = (num ## smap (scale_draw mn mx) rs) !! k
            \<and> Some (fst y) \<noteq> ex
            \<and> snd y = sdrop k rs"
  proof (cases "Some num = ex")
    case False
    with unf have "y = (num, rs)" by simp
    with False show ?thesis by (intro exI [of _ 0]) simp
  next
    case True
    with unf have "loop mn mx ex (scale_draw mn mx (shd rs)) (stl rs) = Some y" by simp
    from IH [OF this] obtain k where
      k: "\<forall>j<k. Some ((scale_draw mn mx (shd rs) ## smap (scale_draw mn mx) (stl rs)) !! j) = ex"
      "fst y = (scale_draw mn mx (shd rs) ## smap (scale_draw mn mx) (stl rs)) !! k"
      "Some (fst y) \<noteq> ex" "snd y = sdrop k (stl rs)"
      by blast
    have eq: "scale_draw mn mx (shd rs) ## smap (scale_draw mn mx) (stl rs) = smap (scale_draw mn mx) rs"
      by (metis smap_ctr stream.collapse)
    show ?thesis
    proof (intro exI [of _ "Suc k"] conjI allI impI)
      fix j assume "j < Suc k"
      then show "Some ((num ## smap (scale_draw mn mx) rs) !! j) = ex"
        using True k(1) unfolding eq by (cases j) auto
    next
      show "fst y = (num ## smap (scale_draw mn mx) rs) !! Suc k"
        using k(2) unfolding eq by simp
    qed (use k in simp_all)
  qed
qed

theorem randomInt_returns_first_admissible_draw:
  assumes "randomInt mn mx ex rs = Some (n, rs')"
  shows "\<exists>k. (\<forall>j<k. Some (scale_draw mn mx (rs !! j)) = ex)
            \<and> n = scale_draw mn mx (rs !! k)
            \<and> Some n \<noteq> ex
            \<and> rs' = sdrop (Suc k) rs"
proof -
  from assms have "randomInt_loop mn mx ex (scale_draw mn mx (shd rs)) (stl rs) = Some (n, rs')"
    by (simp add: randomInt_def)
  from randomInt_loop_first [OF this] obtain k where
    k: "\<forall>j<k. Some ((scale_draw mn mx (shd rs) ## smap (scale_draw mn mx) (stl rs)) !! j) = ex"
      "n = (scale_draw mn mx (shd rs) ## smap (scale_draw mn mx) (stl rs)) !! k"
      "Some n \<noteq> ex" "rs' = sdrop k (stl rs)"
    by auto
  have eq: "scale_draw mn mx (shd rs) ## smap (scale_draw mn mx) (stl rs) = smap (scale_draw mn mx) rs"
    by (metis smap_ctr stream.collapse)
  from k show ?thesis
    unfolding eq by (intro exI [of _ k]) simp
qed

theorem randomInt_returns_first_admissible_draw_witness:
  "randomInt (- 3) 3 (Some 0) (1 / 2 ## sconst (9 / 10)) = Some (3, sconst (9 / 10))
   \<and> (\<exists>k. 3 = scale_draw (- 3) 3 ((1 / 2 ## sconst (9 / 10)) !! k)
          \<and> sconst (9 / 10) = sdrop (Suc k) (1 / 2 ## sconst (9 / 10 :: real)))"
proof -
  have r: "randomInt (- 3) 3 (Some 0) (1 / 2 ## sconst (9 / 10)) = Some (3, sconst (9 / 10))"
    by (simp add: randomInt_def randomInt_loop.simps scale_draw_def)
  from randomInt_returns_first_admissible_draw [OF r] obtain k where
    k1: "3 = scale_draw (- 3) 3 ((1 / 2 ## sconst (9 / 10)) !! k)" and
    k2: "sconst (9 / 10) = sdrop (Suc k) (1 / 2 ## sconst (9 / 10 :: real))"
    by (elim exE conjE) (rule that)
  show ?thesis
  proof (intro conjI exI [of _ k])
    show "randomInt (- 3) 3 (Some 0) (1 / 2 ## sconst (9 / 10)) = Some (3, sconst (9 / 10))" by (rule r)
    show "3 = scale_draw (- 3) 3 ((1 / 2 ## sconst (9 / 10)) !! k)" by (rule k1)
    show "sconst (9 / 10) = sdrop (Suc k) (1 / 2 ## sconst (9 / 10 :: real))" by (rule k2)
  qed
qed

text \<open>
  \<^verbatim>\<open>randomInt\<close> returns whenever some draw of the source is not the excluded value.
\<close>

theorem randomInt_returns_on_admissible_draw:
  assumes "Some (scale_draw mn mx (rs !! k)) \<noteq> ex"
  shows "\<exists>n rs'. randomInt mn mx ex rs = Some (n, rs')"
  using assms by (rule randomInt_returns)

theorem randomInt_returns_on_admissible_draw_witness:
  "Some (scale_draw (- 3) 3 ((1 / 2 ## sconst (9 / 10)) !! 1)) \<noteq> Some 0
   \<and> (\<exists>n rs'. randomInt (- 3) 3 (Some 0) (1 / 2 ## sconst (9 / 10)) = Some (n, rs'))"
proof -
  have h: "Some (scale_draw (- 3) 3 ((1 / 2 ## sconst (9 / 10)) !! 1)) \<noteq> Some 0"
    by (simp add: scale_draw_def)
  from randomInt_returns_on_admissible_draw [OF h] h show ?thesis
    by blast
qed

section \<open>Double arithmetic\<close>

text \<open>
  Rounding to the nearest multiple of the spacing is off by at most half the
  spacing, and leaves a multiple where it is.
\<close>

lemma round_half_even_int [simp]: "round_half_even (of_int k) = k"
  by (simp add: round_half_even_def)

lemma round_half_even_error: "\<bar>of_int (round_half_even y) - y\<bar> \<le> 1 / 2"
  unfolding round_half_even_def Let_def
  by (auto simp: abs_if) linarith+

lemma pow2_powr: "(2::real) powi k = 2 powr (of_int k)"
  by (simp add: powr_real_of_int')

lemma binade_bounds:
  assumes "x \<noteq> 0"
  shows "2 powi binade x \<le> \<bar>x\<bar>" and "\<bar>x\<bar> < 2 powi (binade x + 1)"
proof -
  have pos: "0 < \<bar>x\<bar>" using assms by simp
  have "of_int (binade x) \<le> log 2 \<bar>x\<bar>" by (simp add: binade_def)
  then have "2 powr (of_int (binade x)) \<le> \<bar>x\<bar>"
    using pos by (simp add: le_log_iff)
  then show "2 powi binade x \<le> \<bar>x\<bar>"
    by (simp only: pow2_powr)
  have "log 2 \<bar>x\<bar> < of_int (binade x + 1)" by (simp add: binade_def)
  then have "\<bar>x\<bar> < 2 powr (of_int (binade x + 1))"
    using pos by (simp add: log_less_iff)
  then show "\<bar>x\<bar> < 2 powi (binade x + 1)"
    by (simp only: pow2_powr)
qed

lemma binade_eq:
  assumes "2 powi e \<le> \<bar>x\<bar>" and "\<bar>x\<bar> < 2 powi (e + 1)"
  shows "binade x = e"
proof -
  have "(0::real) < 2 powi e" by simp
  then have pos: "0 < \<bar>x\<bar>" using assms(1) by (rule less_le_trans)
  have "2 powr (of_int e) \<le> \<bar>x\<bar>" using assms(1) by (simp only: pow2_powr)
  then have a: "of_int e \<le> log 2 \<bar>x\<bar>" using pos by (simp add: le_log_iff)
  have "\<bar>x\<bar> < 2 powr (of_int (e + 1))" using assms(2) by (simp only: pow2_powr)
  then have b: "log 2 \<bar>x\<bar> < of_int (e + 1)" using pos by (simp add: log_less_iff)
  from a b show ?thesis unfolding binade_def by linarith
qed

lemma quantum_eq:
  assumes "2 powi e \<le> \<bar>x\<bar>" and "\<bar>x\<bar> < 2 powi (e + 1)"
  shows "quantum x = max e (- 1022) - 52"
  by (simp add: quantum_def binade_eq [OF assms])

lemma fl64_eval:
  assumes "2 powi e \<le> \<bar>x\<bar>" and "\<bar>x\<bar> < 2 powi (e + 1)" and "q = max e (- 1022) - 52"
  shows "fl64 x = of_int (round_half_even (x / 2 powi q)) * 2 powi q"
proof -
  have "(0::real) < 2 powi e" by simp
  then have "0 < \<bar>x\<bar>" using assms(1) by (rule less_le_trans)
  then have "x \<noteq> 0" by simp
  then show ?thesis by (simp add: fl64_def quantum_eq [OF assms(1,2)] assms(3))
qed

lemma fl64_error: "\<bar>fl64 x - x\<bar> \<le> 2 powi quantum x / 2"
proof (cases "x = 0")
  case True
  then show ?thesis by (simp add: fl64_def)
next
  case False
  let ?s = "(2::real) powi quantum x"
  have s: "0 < ?s" by simp
  have "fl64 x - x = ?s * (of_int (round_half_even (x / ?s)) - x / ?s)"
    using False s by (simp add: fl64_def field_simps)
  then have "\<bar>fl64 x - x\<bar> = ?s * \<bar>of_int (round_half_even (x / ?s)) - x / ?s\<bar>"
    using s by (simp add: abs_mult)
  also have "\<dots> \<le> ?s * (1 / 2)"
    using s round_half_even_error [of "x / ?s"] by (intro mult_left_mono) simp_all
  finally show ?thesis by simp
qed

lemma binade_less:
  assumes "x \<noteq> 0" and "\<bar>x\<bar> < 2 powi k"
  shows "binade x < k"
proof -
  from binade_bounds(1) [OF assms(1)] assms(2) have "(2::real) powi binade x < 2 powi k" by linarith
  then show ?thesis
    using power_int_increasing [of k "binade x" "2::real"] by (cases "binade x < k") simp_all
qed

lemma quantum_le:
  assumes "x \<noteq> 0" and "\<bar>x\<bar> < 2 powi k" and "- 1022 < k"
  shows "quantum x \<le> k - 53"
  using binade_less [OF assms(1,2)] assms(3) by (simp add: quantum_def)

lemma fl64_exact:
  assumes "x = of_int m * 2 powi q" and "\<bar>m\<bar> < 2 ^ 53" and "- 1074 \<le> q"
  shows "fl64 x = x"
proof (cases "x = 0")
  case True
  then show ?thesis by (simp add: fl64_def)
next
  case False
  have "\<bar>x\<bar> = of_int \<bar>m\<bar> * 2 powi q" by (simp add: assms(1) abs_mult)
  also have "\<dots> < 2 ^ 53 * 2 powi q"
  proof (intro mult_strict_right_mono)
    have "real_of_int \<bar>m\<bar> < real_of_int (2 ^ 53)" using assms(2) by (simp only: of_int_less_iff)
    then show "real_of_int \<bar>m\<bar> < 2 ^ 53" by simp
  qed simp
  also have "\<dots> = 2 powi (53 + q)" by (simp add: power_int_add)
  finally have "binade x < 53 + q" using binade_less [OF False] by blast
  then have le: "quantum x \<le> q" using assms(3) by (simp add: quantum_def)
  define d where "d = nat (q - quantum x)"
  define s where "s = (2::real) powi quantum x"
  have s: "0 < s" by (simp add: s_def)
  have "q = quantum x + int d" using le by (simp add: d_def)
  then have "(2::real) powi q = 2 powi (quantum x + int d)" by (rule arg_cong)
  also have "\<dots> = s * 2 ^ d" by (simp add: power_int_add s_def)
  finally have xs: "x = of_int (m * 2 ^ d) * s"
    by (simp add: assms(1))
  have "x / s = of_int (m * 2 ^ d)"
    using s by (simp add: xs)
  then have "round_half_even (x / s) = m * 2 ^ d"
    by (simp only: round_half_even_int)
  then have "fl64 x = of_int (m * 2 ^ d) * s"
    using False unfolding fl64_def s_def by simp
  with xs show ?thesis by simp
qed

text \<open>
  Integers below \<open>2 ^ 53\<close> in absolute value are doubles: converting them, and
  rounding sums and products that stay in that range, changes nothing.
\<close>

lemma number_value_of_int:
  assumes "\<bar>m\<bar> < 2 ^ 53"
  shows "number_value (of_int m) = Fin (of_int m)"
proof (cases "m = 0")
  case True
  then show ?thesis by (simp add: number_value_def)
next
  case False
  have fl: "fl64 (of_int m) = of_int m"
    using fl64_exact [of "of_int m" m 0] assms by simp
  have "real_of_int \<bar>m\<bar> < real_of_int (2 ^ 53)" using assms by (simp only: of_int_less_iff)
  then have "\<bar>real_of_int m\<bar> < 2 ^ 53" by simp
  also have "(2::real) ^ 53 \<le> 2 ^ 1024" by (rule power_increasing) simp_all
  finally have "\<not> 2 ^ 1024 \<le> \<bar>real_of_int m\<bar>" by simp
  with False fl show ?thesis by (simp add: number_value_def)
qed

lemma number_value_numeral [simp]:
  "numeral w < (2::int) ^ 53 \<Longrightarrow> number_value (numeral w) = Fin (numeral w)"
  "numeral w < (2::int) ^ 53 \<Longrightarrow> number_value (- numeral w) = Fin (- numeral w)"
  "number_value 0 = Fin 0" "number_value 1 = Fin 1" "number_value (- 1) = Fin (- 1)"
  using number_value_of_int [of "numeral w"] number_value_of_int [of "- numeral w"]
    number_value_of_int [of 1] number_value_of_int [of "- 1"]
  by (simp_all add: number_value_def)

lemma js_int_small: "\<bar>n\<bar> < 2 ^ 53 \<Longrightarrow> js_int n = Fin (of_int n)"
  by (simp add: js_int_def number_value_of_int)

lemma js_int_numeral [simp]:
  "numeral w < (2::int) ^ 53 \<Longrightarrow> js_int (numeral w) = Fin (numeral w)"
  "numeral w < (2::int) ^ 53 \<Longrightarrow> js_int (- numeral w) = Fin (- numeral w)"
  "js_int 0 = Fin 0" "js_int 1 = Fin 1" "js_int (- 1) = Fin (- 1)"
  by (simp_all add: js_int_def)

lemma number_value_fl64:
  assumes "fl64 x = r" and "r \<noteq> 0" and "\<bar>r\<bar> < 2 ^ 1024"
  shows "number_value x = Fin r"
proof -
  have "x \<noteq> 0" using assms(1,2) by (auto simp: fl64_def)
  with assms show ?thesis by (simp add: number_value_def)
qed

text \<open>The doubles nearest to 0.05, 0.01 and 0.3.\<close>

lemma fl64_tolerance: "fl64 (5 / 100) = 3602879701896397 / 2 ^ 56"
  by (subst fl64_eval [where e = "- 5" and q = "- 57"])
     (simp_all add: round_half_even_def power_int_minus_divide)

lemma fl64_hundredth: "fl64 (1 / 100) = 5764607523034235 / 2 ^ 59"
  by (subst fl64_eval [where e = "- 7" and q = "- 59"])
     (simp_all add: round_half_even_def power_int_minus_divide)

lemma fl64_step: "fl64 (3 / 10) = 5404319552844595 / 2 ^ 54"
  by (subst fl64_eval [where e = "- 2" and q = "- 54"])
     (simp_all add: round_half_even_def power_int_minus_divide)

lemma grading_tolerance_value: "grading_tolerance = Fin (3602879701896397 / 2 ^ 56)"
  unfolding grading_tolerance_def by (rule number_value_fl64 [OF fl64_tolerance]) simp_all

lemma default_tolerance_value: "number_value (1 / 100) = Fin (5764607523034235 / 2 ^ 59)"
  by (rule number_value_fl64 [OF fl64_hundredth]) simp_all

lemma surface_step_value: "surface_step = Fin (5404319552844595 / 2 ^ 54)"
  unfolding surface_step_def by (rule number_value_fl64 [OF fl64_step]) simp_all

lemma arrow_scale_value: "arrow_scale = Fin (5404319552844595 / 2 ^ 54)"
  unfolding arrow_scale_def by (rule number_value_fl64 [OF fl64_step]) simp_all

section \<open>The surface sampler\<close>

text \<open>
  The loop variable of \<^verbatim>\<open>generateSurfaceData\<close> accumulates rounded additions of the
  double nearest to 0.3. Near a centre of absolute value at most \<open>10\<^sup>6\<close> every
  addition is off by at most \<open>2\<^sup>-\<^sup>3\<^sup>4\<close>, which fixes the number of samples; far from
  the origin the addition can leave the variable unchanged.
\<close>

lemma number_value_near:
  assumes "\<bar>x\<bar> < 2 ^ 20"
  shows "js_finite (number_value x) \<and> \<bar>js_real (number_value x) - x\<bar> \<le> 1 / 2 ^ 34"
proof (cases "x = 0")
  case True
  then show ?thesis by (simp add: number_value_def)
next
  case False
  have "\<bar>x\<bar> < 2 powi 20" using assms by simp
  from quantum_le [OF False this] have q: "quantum x \<le> - 33" by simp
  have "(2::real) powi quantum x \<le> 2 powi (- 33)"
    using q by (intro power_int_increasing) simp_all
  then have "(2::real) powi quantum x / 2 \<le> 1 / 2 ^ 34"
    by (simp add: power_int_minus_divide)
  with fl64_error [of x] have err: "\<bar>fl64 x - x\<bar> \<le> 1 / 2 ^ 34" by linarith
  then have "\<bar>fl64 x\<bar> \<le> \<bar>x\<bar> + 1 / 2 ^ 34" by linarith
  also have "\<dots> < 2 ^ 20 + 1" using assms by simp
  also have "\<dots> \<le> (2::real) ^ 1024" by simp
  finally have small: "\<not> 2 ^ 1024 \<le> \<bar>fl64 x\<bar>" by simp
  have "js_finite (number_value x) \<and> js_real (number_value x) = fl64 x"
    using False small by (simp add: number_value_def js_zero_def)
  with err show ?thesis by simp
qed

lemma js_add_near:
  assumes "js_finite a" and "js_finite b" and "\<bar>js_real a + js_real b\<bar> < 2 ^ 20"
  shows "js_finite (js_add a b) \<and> \<bar>js_real (js_add a b) - (js_real a + js_real b)\<bar> \<le> 1 / 2 ^ 34"
proof (cases "a = NegZero \<and> b = NegZero")
  case True
  then show ?thesis by (simp add: js_add_def)
next
  case False
  with assms(1,2) have "js_add a b = number_value (js_real a + js_real b)"
    by (cases a; cases b) (simp_all add: js_add_def)
  with number_value_near [OF assms(3)] show ?thesis by simp
qed

lemma js_le_finite:
  assumes "js_finite a" and "js_finite b"
  shows "js_le a b \<longleftrightarrow> js_real a \<le> js_real b"
  using assms by (cases a; cases b) (auto simp: js_le_def js_lt_def)

lemma surface_range_value: "surface_range = Fin 5"
  by (simp add: surface_range_def)

lemma axis_step_small:
  fixes r c :: real and k :: nat
  assumes near: "\<bar>r - (c - 5 + real k * (3 / 10))\<bar> \<le> real (k + 1) / 2 ^ 33"
    and c: "\<bar>c\<bar> \<le> 10 ^ 6" and k: "k \<le> 33"
  shows "\<bar>r + 5404319552844595 / 2 ^ 54\<bar> < 2 ^ 20"
proof -
  have k': "real k \<le> 33" using k by simp
  have k0: "0 \<le> real k" by simp
  have p: "(2::real) ^ 33 = 8589934592" "(2::real) ^ 54 = 18014398509481984"
    "(2::real) ^ 20 = 1048576" "(10::real) ^ 6 = 1000000"
    by simp_all
  have e: "real (k + 1) = real k + 1" by simp
  show ?thesis
    unfolding p e abs_less_iff using near [unfolded p e abs_le_iff] c [unfolded p abs_le_iff] k' k0
    by argo
qed

lemma axis_step_near:
  fixes r c t :: real and k :: nat
  assumes near: "\<bar>r - (c - 5 + real k * (3 / 10))\<bar> \<le> real (k + 1) / 2 ^ 33"
    and t: "\<bar>t - (r + 5404319552844595 / 2 ^ 54)\<bar> \<le> 1 / 2 ^ 34"
  shows "\<bar>t - (c - 5 + real (Suc k) * (3 / 10))\<bar> \<le> real (Suc k + 1) / 2 ^ 33"
proof -
  have k0: "0 \<le> real k" by simp
  have p: "(2::real) ^ 33 = 8589934592" "(2::real) ^ 34 = 17179869184"
    "(2::real) ^ 54 = 18014398509481984"
    by simp_all
  have e: "real (k + 1) = real k + 1" "real (Suc k + 1) = real k + 2" "real (Suc k) = real k + 1"
    by simp_all
  show ?thesis
    unfolding p e abs_le_iff using near [unfolded p e abs_le_iff] t [unfolded p abs_le_iff] k0
    by argo
qed

lemma axis_iterates:
  assumes c: "\<bar>c\<bar> \<le> 10 ^ 6" and k: "k \<le> 34"
  shows "js_finite (((\<lambda>i. js_add i surface_step) ^^ k) (js_sub (Fin c) surface_range))
       \<and> \<bar>js_real (((\<lambda>i. js_add i surface_step) ^^ k) (js_sub (Fin c) surface_range))
            - (c - 5 + real k * (3 / 10))\<bar> \<le> real (k + 1) / 2 ^ 33"
  using k
proof (induction k)
  case 0
  have "\<bar>js_real (Fin c) + js_real (Fin (- 5))\<bar> < 2 ^ 20"
    using c by simp
  from js_add_near [OF _ _ this] show ?case
    by (simp add: js_sub_def surface_range_value)
next
  case (Suc k)
  define v where "v = ((\<lambda>i. js_add i surface_step) ^^ k) (js_sub (Fin c) surface_range)"
  from Suc have fin: "js_finite v"
    and near: "\<bar>js_real v - (c - 5 + real k * (3 / 10))\<bar> \<le> real (k + 1) / 2 ^ 33"
    by (simp_all add: v_def)
  have k: "k \<le> 33" using Suc.prems by simp
  have s: "js_real surface_step = 5404319552844595 / 2 ^ 54" "js_finite surface_step"
    by (simp_all add: surface_step_value)
  have sm: "\<bar>js_real v + js_real surface_step\<bar> < 2 ^ 20"
    unfolding s using near c k by (rule axis_step_small)
  from js_add_near [OF fin s(2) sm]
  have f': "js_finite (js_add v surface_step)"
    and n': "\<bar>js_real (js_add v surface_step) - (js_real v + 5404319552844595 / 2 ^ 54)\<bar> \<le> 1 / 2 ^ 34"
    unfolding s by simp_all
  have "\<bar>js_real (js_add v surface_step) - (c - 5 + real (Suc k) * (3 / 10))\<bar> \<le> real (Suc k + 1) / 2 ^ 33"
    using near n' by (rule axis_step_near)
  with f' show ?case by (simp add: v_def)
qed

lemma axis_bound:
  assumes c: "\<bar>c\<bar> \<le> 10 ^ 6"
  shows "js_finite (js_add (Fin c) surface_range)
       \<and> \<bar>js_real (js_add (Fin c) surface_range) - (c + 5)\<bar> \<le> 1 / 2 ^ 34"
proof -
  have "\<bar>js_real (Fin c) + js_real (Fin 5)\<bar> < 2 ^ 20"
    using c by simp
  from js_add_near [OF _ _ this] show ?thesis by (simp add: surface_range_value)
qed

lemma axis_loop_unroll:
  assumes "\<forall>j<k. js_le (((\<lambda>i. js_add i surface_step) ^^ j) lo) hi"
  shows "axis_loop lo hi acc =
     axis_loop (((\<lambda>i. js_add i surface_step) ^^ k) lo) hi
       (acc @ map (\<lambda>j. ((\<lambda>i. js_add i surface_step) ^^ j) lo) [0..<k])"
  using assms
proof (induction k)
  case 0
  show ?case by simp
next
  case (Suc k)
  then have le: "js_le (((\<lambda>i. js_add i surface_step) ^^ k) lo) hi" by simp
  from Suc have "axis_loop lo hi acc =
     axis_loop (((\<lambda>i. js_add i surface_step) ^^ k) lo) hi
       (acc @ map (\<lambda>j. ((\<lambda>i. js_add i surface_step) ^^ j) lo) [0..<k])"
    by simp
  also have "\<dots> = axis_loop (((\<lambda>i. js_add i surface_step) ^^ Suc k) lo) hi
       (acc @ map (\<lambda>j. ((\<lambda>i. js_add i surface_step) ^^ j) lo) [0..<Suc k])"
    using le by (subst axis_loop.simps) simp
  finally show ?case .
qed

lemma axis_result:
  assumes c: "\<bar>c\<bar> \<le> 10 ^ 6"
  shows "axis_loop (js_sub (Fin c) surface_range) (js_add (Fin c) surface_range) [] =
     Some (map (\<lambda>k. ((\<lambda>i. js_add i surface_step) ^^ k) (js_sub (Fin c) surface_range)) [0..<34])"
proof -
  let ?it = "\<lambda>k. ((\<lambda>i. js_add i surface_step) ^^ k) (js_sub (Fin c) surface_range)"
  let ?hi = "js_add (Fin c) surface_range"
  note hi = axis_bound [OF c]
  have p: "(2::real) ^ 33 = 8589934592" "(2::real) ^ 34 = 17179869184" by simp_all
  have below: "js_le (?it k) ?hi" if "k < 34" for k
  proof -
    from that have k: "real k \<le> 33" by simp
    from that axis_iterates [OF c, of k]
    have f: "js_finite (?it k)"
      and n: "\<bar>js_real (?it k) - (c - 5 + real k * (3 / 10))\<bar> \<le> (real k + 1) / 2 ^ 33"
      by simp_all
    have "js_real (?it k) \<le> js_real ?hi"
      using n [unfolded p abs_le_iff] hi [unfolded p abs_le_iff] k by argo
    with f hi show ?thesis by (simp add: js_le_finite)
  qed
  have above: "\<not> js_le (?it 34) ?hi"
  proof -
    from axis_iterates [OF c, of 34]
    have f: "js_finite (?it 34)"
      and n: "\<bar>js_real (?it 34) - (c - 5 + 34 * (3 / 10))\<bar> \<le> 35 / 2 ^ 33"
      by simp_all
    have "\<not> js_real (?it 34) \<le> js_real ?hi"
      using n [unfolded p abs_le_iff] hi [unfolded p abs_le_iff] by argo
    with f hi show ?thesis by (simp add: js_le_finite)
  qed
  have "axis_loop (js_sub (Fin c) surface_range) ?hi [] = axis_loop (?it 34) ?hi ([] @ map ?it [0..<34])"
    by (rule axis_loop_unroll) (use below in blast)
  also have "\<dots> = Some (map ?it [0..<34])"
    using above by (subst axis_loop.simps) simp
  finally show ?thesis .
qed

lemma axis_loop_stuck:
  assumes le: "js_le i hi" and same: "js_add i surface_step = i"
  shows "axis_loop i hi acc = None"
proof (rule ccontr)
  assume "axis_loop i hi acc \<noteq> None"
  then obtain y where major: "axis_loop i hi acc = Some y" by auto
  have "\<not> (js_le i hi \<and> js_add i surface_step = i)"
  proof (rule axis_loop.raw_induct [where P = "\<lambda>i hi acc y. \<not> (js_le i hi \<and> js_add i surface_step = i)", OF _ major])
    fix loop :: "jsnum \<Rightarrow> jsnum \<Rightarrow> jsnum list \<Rightarrow> jsnum list option" and i hi acc y
    assume IH: "\<And>i hi acc y. loop i hi acc = Some y \<Longrightarrow> \<not> (js_le i hi \<and> js_add i surface_step = i)"
      and unf: "(if js_le i hi then loop (js_add i surface_step) hi (acc @ [i]) else Some acc) = Some y"
    show "\<not> (js_le i hi \<and> js_add i surface_step = i)"
    proof
      assume h: "js_le i hi \<and> js_add i surface_step = i"
      with unf have "loop i hi (acc @ [i]) = Some y" by simp
      from IH [OF this] h show False by blast
    qed
  qed
  with le same show False by blast
qed

lemma fl64_below_2_60: "fl64 (2 ^ 60 - 5) = 2 ^ 60"
  by (subst fl64_eval [where e = "59" and q = "7"]) (simp_all add: round_half_even_def)

lemma fl64_above_2_60: "fl64 (2 ^ 60 + 5) = 2 ^ 60"
  by (subst fl64_eval [where e = "60" and q = "8"]) (simp_all add: round_half_even_def)

lemma fl64_step_2_60: "fl64 (2 ^ 60 + 5404319552844595 / 2 ^ 54) = 2 ^ 60"
  by (subst fl64_eval [where e = "60" and q = "8"]) (simp_all add: round_half_even_def)

lemma large_centre:
  "js_sub (Fin (2 ^ 60)) surface_range = Fin (2 ^ 60)"
  "js_add (Fin (2 ^ 60)) surface_range = Fin (2 ^ 60)"
  "js_add (Fin (2 ^ 60)) surface_step = Fin (2 ^ 60)"
proof -
  have a: "number_value (2 ^ 60 - 5) = Fin (2 ^ 60)"
    by (rule number_value_fl64 [OF fl64_below_2_60]) simp_all
  have b: "number_value (2 ^ 60 + 5) = Fin (2 ^ 60)"
    by (rule number_value_fl64 [OF fl64_above_2_60]) simp_all
  have c: "number_value (2 ^ 60 + 5404319552844595 / 2 ^ 54) = Fin (2 ^ 60)"
    by (rule number_value_fl64 [OF fl64_step_2_60]) simp_all
  show "js_sub (Fin (2 ^ 60)) surface_range = Fin (2 ^ 60)"
    using a by (simp add: js_sub_def js_add_def surface_range_value)
  show "js_add (Fin (2 ^ 60)) surface_range = Fin (2 ^ 60)"
    using b by (simp add: js_add_def surface_range_value)
  show "js_add (Fin (2 ^ 60)) surface_step = Fin (2 ^ 60)"
    unfolding surface_step_value using c by (simp add: js_add_def)
qed

text \<open>
  Claim C7 fails on the code. The loop adds the step to a double and compares, with
  no bound on the centre. At the centre \<open>x0 = 2\<^sup>6\<^sup>0\<close> (the text
  \<^verbatim>\<open>1152921504606846976\<close> in the page's input field, which \<^verbatim>\<open>updatePlot\<close> parses
  and passes on unchecked) neighbouring doubles are 256 apart: \<open>x0 - 5\<close>,
  \<open>x0 + 5\<close> and \<open>i + 0.3\<close> all round to \<open>x0\<close>, the loop condition
  \<open>i \<le> x0 + 5\<close> stays true for ever, and \<^verbatim>\<open>generateSurfaceData\<close> returns no
  grid, whatever the instance and the other coordinate, where the claim says it
  returns one for every centre.
\<close>

theorem large_centre_never_returns:
  "generateSurfaceData E f (Fin (2 ^ 60)) y0 = None"
proof -
  have "axis_loop (Fin (2 ^ 60)) (Fin (2 ^ 60)) [] = None"
    by (rule axis_loop_stuck) (simp_all only: large_centre, simp_all add: js_le_def js_lt_def)
  then show ?thesis
    unfolding generateSurfaceData_def large_centre by simp
qed

text \<open>
  Centres near the origin, the practice range among them. For every function
  instance and every centre whose coordinates are at most \<open>10\<^sup>6\<close> in absolute
  value, \<^verbatim>\<open>generateSurfaceData\<close> returns. The x-samples are the 34 values of the loop variable: the first is the double
  \<open>x0 - 5\<close>, each next one the rounded sum of the previous one and the double
  nearest to 0.3. Sample \<open>k\<close> is finite and within \<open>10\<^sup>-\<^sup>8\<close> of
  \<open>x0 - 5 + 0.3 k\<close>; the first and the last sample are within one step of
  \<open>x0 - 5\<close> and \<open>x0 + 5\<close>. The same holds of the y-samples. The matrix has one
  row per y-sample and one column per x-sample, and its entry in row \<open>i\<close>, column
  \<open>j\<close> is \<^verbatim>\<open>evaluate\<close> at x-sample \<open>j\<close> and y-sample \<open>i\<close>. The result is a
  function of the instance and the centre alone.
\<close>

theorem surface_sampler_grid:
  assumes "\<bar>x0\<bar> \<le> 10 ^ 6" and "\<bar>y0\<bar> \<le> 10 ^ 6"
  shows "\<exists>xs ys.
      generateSurfaceData E f (Fin x0) (Fin y0) =
        Some \<lparr>grid_x = xs, grid_y = ys, grid_z = map (\<lambda>yi. map (\<lambda>xi. evaluate64 E f xi yi) xs) ys\<rparr>
    \<and> xs = map (\<lambda>k. ((\<lambda>i. js_add i surface_step) ^^ k) (js_sub (Fin x0) surface_range)) [0..<34]
    \<and> ys = map (\<lambda>k. ((\<lambda>i. js_add i surface_step) ^^ k) (js_sub (Fin y0) surface_range)) [0..<34]
    \<and> (\<forall>k<34. js_finite (xs ! k) \<and> \<bar>js_real (xs ! k) - (x0 - 5 + real k * (3 / 10))\<bar> \<le> 1 / 10 ^ 8)
    \<and> (\<forall>k<34. js_finite (ys ! k) \<and> \<bar>js_real (ys ! k) - (y0 - 5 + real k * (3 / 10))\<bar> \<le> 1 / 10 ^ 8)
    \<and> \<bar>js_real (hd xs) - (x0 - 5)\<bar> < 3 / 10 \<and> \<bar>js_real (last xs) - (x0 + 5)\<bar> < 3 / 10
    \<and> \<bar>js_real (hd ys) - (y0 - 5)\<bar> < 3 / 10 \<and> \<bar>js_real (last ys) - (y0 + 5)\<bar> < 3 / 10"
proof -
  define xs where "xs = map (\<lambda>k. ((\<lambda>i. js_add i surface_step) ^^ k) (js_sub (Fin x0) surface_range)) [0..<34]"
  define ys where "ys = map (\<lambda>k. ((\<lambda>i. js_add i surface_step) ^^ k) (js_sub (Fin y0) surface_range)) [0..<34]"
  have near: "js_finite (map (\<lambda>k. ((\<lambda>i. js_add i surface_step) ^^ k) (js_sub (Fin c) surface_range)) [0..<34] ! k)
      \<and> \<bar>js_real (map (\<lambda>k. ((\<lambda>i. js_add i surface_step) ^^ k) (js_sub (Fin c) surface_range)) [0..<34] ! k)
           - (c - 5 + real k * (3 / 10))\<bar> \<le> 1 / 10 ^ 8"
    if c: "\<bar>c\<bar> \<le> 10 ^ 6" and k: "k < 34" for c k
  proof -
    from k have k': "real k \<le> 33" by simp
    from k axis_iterates [OF c, of k]
    have f: "js_finite (((\<lambda>i. js_add i surface_step) ^^ k) (js_sub (Fin c) surface_range))"
      and n: "\<bar>js_real (((\<lambda>i. js_add i surface_step) ^^ k) (js_sub (Fin c) surface_range))
           - (c - 5 + real k * (3 / 10))\<bar> \<le> (real k + 1) / 2 ^ 33"
      by simp_all
    have "(real k + 1) / 2 ^ 33 \<le> 1 / 10 ^ 8"
      using k' by simp
    with n have "\<bar>js_real (((\<lambda>i. js_add i surface_step) ^^ k) (js_sub (Fin c) surface_range))
           - (c - 5 + real k * (3 / 10))\<bar> \<le> 1 / 10 ^ 8"
      by (rule order_trans)
    with f k show ?thesis by (simp del: upt_Suc)
  qed
  have ends: "\<bar>js_real (hd zs) - (c - 5)\<bar> < 3 / 10 \<and> \<bar>js_real (last zs) - (c + 5)\<bar> < 3 / 10"
    if c: "\<bar>c\<bar> \<le> 10 ^ 6"
      and zs: "zs = map (\<lambda>k. ((\<lambda>i. js_add i surface_step) ^^ k) (js_sub (Fin c) surface_range)) [0..<34]"
    for c zs
  proof -
    have len: "length zs = 34" by (simp add: zs)
    then have ne: "zs \<noteq> []" by auto
    have h: "hd zs = zs ! 0" using ne by (simp add: hd_conv_nth)
    have l: "last zs = zs ! 33" using ne len by (simp add: last_conv_nth)
    from near [OF c, of 0] have a: "\<bar>js_real (zs ! 0) - (c - 5)\<bar> \<le> 1 / 10 ^ 8"
      unfolding zs by simp
    from near [OF c, of 33] have b: "\<bar>js_real (zs ! 33) - (c - 5 + 33 * (3 / 10))\<bar> \<le> 1 / 10 ^ 8"
      unfolding zs by simp
    have p: "(10::real) ^ 8 = 100000000" by simp
    show ?thesis
      unfolding h l abs_less_iff using a [unfolded p abs_le_iff] b [unfolded p abs_le_iff] by argo
  qed
  have g: "generateSurfaceData E f (Fin x0) (Fin y0) =
        Some \<lparr>grid_x = xs, grid_y = ys, grid_z = map (\<lambda>yi. map (\<lambda>xi. evaluate64 E f xi yi) xs) ys\<rparr>"
    unfolding generateSurfaceData_def axis_result [OF assms(1)] axis_result [OF assms(2)] xs_def ys_def
    by simp
  show ?thesis
  proof (intro exI conjI)
    show "generateSurfaceData E f (Fin x0) (Fin y0) =
        Some \<lparr>grid_x = xs, grid_y = ys, grid_z = map (\<lambda>yi. map (\<lambda>xi. evaluate64 E f xi yi) xs) ys\<rparr>"
      by (rule g)
    show "xs = map (\<lambda>k. ((\<lambda>i. js_add i surface_step) ^^ k) (js_sub (Fin x0) surface_range)) [0..<34]"
      by (rule xs_def)
    show "ys = map (\<lambda>k. ((\<lambda>i. js_add i surface_step) ^^ k) (js_sub (Fin y0) surface_range)) [0..<34]"
      by (rule ys_def)
    show "\<forall>k<34. js_finite (xs ! k) \<and> \<bar>js_real (xs ! k) - (x0 - 5 + real k * (3 / 10))\<bar> \<le> 1 / 10 ^ 8"
      unfolding xs_def using near [OF assms(1)] by blast
    show "\<forall>k<34. js_finite (ys ! k) \<and> \<bar>js_real (ys ! k) - (y0 - 5 + real k * (3 / 10))\<bar> \<le> 1 / 10 ^ 8"
      unfolding ys_def using near [OF assms(2)] by blast
    show "\<bar>js_real (hd xs) - (x0 - 5)\<bar> < 3 / 10" using ends [OF assms(1) xs_def] by blast
    show "\<bar>js_real (last xs) - (x0 + 5)\<bar> < 3 / 10" using ends [OF assms(1) xs_def] by blast
    show "\<bar>js_real (hd ys) - (y0 - 5)\<bar> < 3 / 10" using ends [OF assms(2) ys_def] by blast
    show "\<bar>js_real (last ys) - (y0 + 5)\<bar> < 3 / 10" using ends [OF assms(2) ys_def] by blast
  qed
qed

theorem surface_sampler_grid_witness:
  "\<bar>0::real\<bar> \<le> 10 ^ 6
   \<and> (\<exists>g. generateSurfaceData correctly_rounded (Saddle 2 1) (Fin 0) (Fin 0) = Some g
          \<and> length (grid_x g) = 34 \<and> length (grid_y g) = 34
          \<and> grid_x g ! 0 = Fin (- 5) \<and> grid_y g ! 0 = Fin (- 5)
          \<and> (0::nat) < 34 \<and> js_finite (grid_x g ! 0) \<and> \<bar>js_real (grid_x g ! 0) - (0 - 5 + real 0 * (3 / 10))\<bar> \<le> 1 / 10 ^ 8
          \<and> grid_z g ! 0 ! 0 = Fin 25)"
proof -
  have c: "\<bar>0::real\<bar> \<le> 10 ^ 6" by simp
  from surface_sampler_grid [OF c c, of correctly_rounded "Saddle 2 1"]
  obtain xs ys where
    g: "generateSurfaceData correctly_rounded (Saddle 2 1) (Fin 0) (Fin 0) =
        Some \<lparr>grid_x = xs, grid_y = ys,
              grid_z = map (\<lambda>yi. map (\<lambda>xi. evaluate64 correctly_rounded (Saddle 2 1) xi yi) xs) ys\<rparr>"
    and xs: "xs = map (\<lambda>k. ((\<lambda>i. js_add i surface_step) ^^ k) (js_sub (Fin 0) surface_range)) [0..<34]"
    and ys: "ys = map (\<lambda>k. ((\<lambda>i. js_add i surface_step) ^^ k) (js_sub (Fin 0) surface_range)) [0..<34]"
    and near: "\<forall>k<34. js_finite (xs ! k) \<and> \<bar>js_real (xs ! k) - (0 - 5 + real k * (3 / 10))\<bar> \<le> 1 / 10 ^ 8"
    by blast
  have lo: "js_sub (Fin 0) surface_range = Fin (- 5)"
    by (simp add: js_sub_def js_add_def surface_range_value)
  have lx: "length xs = 34" and ly: "length ys = 34" by (simp_all add: xs ys)
  have x0: "xs ! 0 = Fin (- 5)" unfolding xs lo by (simp add: upt_conv_Cons del: upt_Suc)
  have y0: "ys ! 0 = Fin (- 5)" unfolding ys lo by (simp add: upt_conv_Cons del: upt_Suc)
  have ev: "evaluate64 correctly_rounded (Saddle 2 1) (Fin (- 5)) (Fin (- 5)) = Fin 25"
    by (simp add: js_mul_def js_sub_def js_add_def)
  have z: "map (\<lambda>yi. map (\<lambda>xi. evaluate64 correctly_rounded (Saddle 2 1) xi yi) xs) ys ! 0 ! 0 = Fin 25"
    using lx ly x0 y0 ev by simp
  have n0: "js_finite (xs ! 0) \<and> \<bar>js_real (xs ! 0) - (0 - 5 + real 0 * (3 / 10))\<bar> \<le> 1 / 10 ^ 8"
    by (rule near [THEN spec, THEN mp]) simp
  show ?thesis
  proof (intro conjI exI)
    show "generateSurfaceData correctly_rounded (Saddle 2 1) (Fin 0) (Fin 0) =
        Some \<lparr>grid_x = xs, grid_y = ys,
              grid_z = map (\<lambda>yi. map (\<lambda>xi. evaluate64 correctly_rounded (Saddle 2 1) xi yi) xs) ys\<rparr>"
      by (rule g)
  qed (use c lx ly x0 y0 z n0 in simp_all)
qed

section \<open>The gradient arrow\<close>

text \<open>
  \<^verbatim>\<open>generateGradientArrows\<close> tests the magnitude it has computed in doubles, where
  the square of a small partial derivative underflows to zero.
\<close>

lemma fl64_underflow:
  assumes "x \<noteq> 0" and "\<bar>x\<bar> < 2 powi (- 1075)"
  shows "fl64 x = 0"
proof -
  have "binade x < - 1075" using assms by (rule binade_less)
  then have q: "quantum x = - 1074" by (simp add: quantum_def)
  define s where "s = (2::real) powi (- 1074)"
  have s: "0 < s" unfolding s_def by (rule zero_less_power_int) simp
  have "(2::real) powi (- 1075 + 1) = 2 powi (- 1075) * 2"
    by (rule power_int_add_1) simp
  then have "(2::real) powi (- 1075) = s / 2"
    unfolding s_def by (simp del: power_int_numeral_neg_numeral)
  with assms(2) have "\<bar>x\<bar> < s / 2" by simp
  then have h: "\<bar>x / s\<bar> < 1 / 2"
    using s by (simp add: abs_divide field_simps)
  define t where "t = x / s"
  from h have t: "t < 1 / 2" "- (1 / 2) < t"
    unfolding t_def abs_less_iff by linarith+
  have "round_half_even t = 0"
  proof (cases "0 \<le> t")
    case True
    with t have "\<lfloor>t\<rfloor> = 0" by linarith
    with t True show ?thesis by (simp add: round_half_even_def)
  next
    case False
    with t have "\<lfloor>t\<rfloor> = - 1" by linarith
    with t False show ?thesis by (simp add: round_half_even_def)
  qed
  then show ?thesis using assms(1) unfolding fl64_def q s_def t_def by simp
qed

lemma number_value_underflow:
  assumes "x \<noteq> 0" and "\<bar>x\<bar> < 2 powi (- 1075)"
  shows "number_value x = js_zero (x < 0)"
  using assms(1) fl64_underflow [OF assms] by (simp add: number_value_def)

lemma number_value_exact:
  assumes "x = of_int m * 2 powi q" and "\<bar>m\<bar> < 2 ^ 53" and "- 1074 \<le> q" and "\<bar>x\<bar> < 2 ^ 1024"
  shows "number_value x = Fin x"
proof (cases "x = 0")
  case True
  then show ?thesis by (simp add: number_value_def)
next
  case False
  with fl64_exact [OF assms(1-3)] assms(4) show ?thesis by (simp add: number_value_def)
qed

lemma js_add_zero:
  assumes "js_double x" and "x \<noteq> NegZero"
  shows "js_add x (Fin 0) = x"
  using assms by (cases x) (simp_all add: js_add_def)

lemma tiny_point:
  "number_value (2 powi (- 600)) = Fin (2 powi (- 600))"
  "number_value (2 powi (- 599)) = Fin (2 powi (- 599))"
  "number_value (2 powi (- 1200)) = Fin 0"
  "number_value (2 powi (- 1198)) = Fin 0"
proof -
  show "number_value (2 powi (- 600)) = Fin (2 powi (- 600))"
    by (rule number_value_exact [where m = 1 and q = "- 600"]) (simp_all add: power_int_minus_divide)
  show "number_value (2 powi (- 599)) = Fin (2 powi (- 599))"
    by (rule number_value_exact [where m = 1 and q = "- 599"]) (simp_all add: power_int_minus_divide)
  have "number_value (2 powi (- 1200)) = js_zero (2 powi (- 1200) < (0::real))"
    by (rule number_value_underflow) (simp_all add: power_int_minus_divide)
  then show "number_value (2 powi (- 1200)) = Fin 0" by (simp add: js_zero_def)
  have "number_value (2 powi (- 1198)) = js_zero (2 powi (- 1198) < (0::real))"
    by (rule number_value_underflow) (simp_all add: power_int_minus_divide)
  then show "number_value (2 powi (- 1198)) = Fin 0" by (simp add: js_zero_def)
qed

lemma js_mul_finite:
  "a \<noteq> 0 \<Longrightarrow> b \<noteq> 0 \<Longrightarrow> js_mul (Fin a) (Fin b) = number_value (a * b)"
  by (simp add: js_mul_def)

lemma js_mul_zero:
  "js_mul (Fin a) (Fin 0) = js_zero (a < 0)" "js_mul NegZero NegZero = Fin 0"
  by (simp_all add: js_mul_def js_zero_def)

lemma js_add_zeros: "js_add (Fin 0) (Fin 0) = Fin 0" "js_sub (Fin 0) (Fin 0) = Fin 0"
  by (simp_all add: js_add_def js_sub_def)

text \<open>
  Claim C8 as amended. For every function instance and point the arrow starts at the
  point, and its z coordinate is \<^verbatim>\<open>evaluate\<close> at the point for both endpoints. Let
  \<open>m\<close> be the magnitude as the code computes it, \<^verbatim>\<open>Math.sqrt(dfdx*dfdx + dfdy*dfdy)\<close>
  in double arithmetic. When \<open>m > 0\<close> holds of that double, the end point is the
  start plus \<open>(dfdx / m) * 0.3\<close> and \<open>(dfdy / m) * 0.3\<close>, each operation rounded.
  Otherwise (\<open>m\<close> is zero or \<^verbatim>\<open>NaN\<close>) the end point is the start plus 0; when
  \<open>m\<close> is zero, which includes every point where both partial derivatives
  vanish, and the coordinates are doubles other than \<open>-0\<close>, the end equals the start.
\<close>

theorem gradient_arrow_segment:
  "arrow_x (generateGradientArrows E f x0 y0) ! 0 = x0
   \<and> arrow_y (generateGradientArrows E f x0 y0) ! 0 = y0
   \<and> arrow_z (generateGradientArrows E f x0 y0) = [evaluate64 E f x0 y0, evaluate64 E f x0 y0]
   \<and> (js_lt (Fin 0) (gradient_magnitude E f x0 y0) \<longrightarrow>
        arrow_x (generateGradientArrows E f x0 y0) =
          [x0, js_add x0 (js_mul (js_div (partialXValue64 E f x0 y0) (gradient_magnitude E f x0 y0)) arrow_scale)]
        \<and> arrow_y (generateGradientArrows E f x0 y0) =
          [y0, js_add y0 (js_mul (js_div (partialYValue64 E f x0 y0) (gradient_magnitude E f x0 y0)) arrow_scale)])
   \<and> (\<not> js_lt (Fin 0) (gradient_magnitude E f x0 y0) \<longrightarrow>
        arrow_x (generateGradientArrows E f x0 y0) = [x0, js_add x0 (Fin 0)]
        \<and> arrow_y (generateGradientArrows E f x0 y0) = [y0, js_add y0 (Fin 0)])
   \<and> (js_is_zero (gradient_magnitude E f x0 y0) \<and> js_double x0 \<and> x0 \<noteq> NegZero
        \<and> js_double y0 \<and> y0 \<noteq> NegZero \<longrightarrow>
        arrow_x (generateGradientArrows E f x0 y0) = [x0, x0]
        \<and> arrow_y (generateGradientArrows E f x0 y0) = [y0, y0])"
proof -
  have z: "js_is_zero m \<Longrightarrow> \<not> js_lt (Fin 0) m" for m
    by (cases m) (simp_all add: js_lt_def)
  show ?thesis
    by (auto simp: generateGradientArrows_def gradient_magnitude_def Let_def js_add_zero dest: z)
qed

text \<open>
  The computed magnitude is not the gradient's. For the saddle \<open>x\<^sup>2 - y\<^sup>2\<close> at
  \<open>(2\<^sup>-\<^sup>6\<^sup>0\<^sup>0, 0)\<close> the partial derivative in \<open>x\<close> is \<open>2\<^sup>-\<^sup>5\<^sup>9\<^sup>9\<close>, a positive
  double, but its square is below the smallest double and rounds to zero.
\<close>

lemma tiny_squares:
  "js_mul (Fin (2 powi (- 600))) (Fin (2 powi (- 600))) = Fin 0"
  "js_mul (Fin (2 powi (- 599))) (Fin (2 powi (- 599))) = Fin 0"
  "js_mul (Fin 2) (Fin (2 powi (- 600))) = Fin (2 powi (- 599))"
  "js_mul (Fin 1) (Fin (2 powi (- 600))) = Fin (2 powi (- 600))"
  "js_add (Fin (2 powi (- 600))) (Fin 0) = Fin (2 powi (- 600))"
proof -
  have a: "(2::real) powi (- 600) * 2 powi (- 600) = 2 powi (- 1200)"
    by (simp flip: power_int_add del: power_int_numeral_neg_numeral)
  have b: "(2::real) powi (- 599) * 2 powi (- 599) = 2 powi (- 1198)"
    by (simp flip: power_int_add del: power_int_numeral_neg_numeral)
  have c: "2 * (2::real) powi (- 600) = 2 powi (- 599)"
    using power_int_add_1' [of "2::real" "- 600"] by (simp del: power_int_numeral_neg_numeral)
  have nz: "(2::real) powi k \<noteq> 0" for k by simp
  show "js_mul (Fin (2 powi (- 600))) (Fin (2 powi (- 600))) = Fin 0"
    unfolding js_mul_finite [OF nz nz] a by (rule tiny_point)
  show "js_mul (Fin (2 powi (- 599))) (Fin (2 powi (- 599))) = Fin 0"
    unfolding js_mul_finite [OF nz nz] b by (rule tiny_point)
  have two: "(2::real) \<noteq> 0" by simp
  show "js_mul (Fin 2) (Fin (2 powi (- 600))) = Fin (2 powi (- 599))"
    unfolding js_mul_finite [OF two nz] c by (rule tiny_point)
  have one: "(1::real) \<noteq> 0" by simp
  show "js_mul (Fin 1) (Fin (2 powi (- 600))) = Fin (2 powi (- 600))"
    unfolding js_mul_finite [OF one nz] mult_1 by (rule tiny_point)
  have "js_add (Fin (2 powi (- 600))) (Fin 0) = number_value (2 powi (- 600) + 0)"
    unfolding js_add_def by (simp del: power_int_numeral_neg_numeral)
  then show "js_add (Fin (2 powi (- 600))) (Fin 0) = Fin (2 powi (- 600))"
    unfolding add_0_right by (simp only: tiny_point)
qed

text \<open>
  Claim C8 fails there: the gradient of the saddle \<open>x\<^sup>2 - y\<^sup>2\<close> at
  \<open>(2\<^sup>-\<^sup>6\<^sup>0\<^sup>0, 0)\<close> has the positive magnitude \<open>2\<^sup>-\<^sup>5\<^sup>9\<^sup>9\<close>, and the claim places the end
  of the arrow 0.3 away from the point; the code returns an arrow whose end is its
  start.
\<close>

theorem tiny_gradient_collapses:
  "partialXValue64 correctly_rounded (Saddle 1 1) (Fin (2 powi (- 600))) (Fin 0) = Fin (2 powi (- 599))
   \<and> (0::real) < 2 powi (- 599)
   \<and> arrow_x (generateGradientArrows correctly_rounded (Saddle 1 1) (Fin (2 powi (- 600))) (Fin 0))
       = [Fin (2 powi (- 600)), Fin (2 powi (- 600))]
   \<and> arrow_y (generateGradientArrows correctly_rounded (Saddle 1 1) (Fin (2 powi (- 600))) (Fin 0))
       = [Fin 0, Fin 0]"
proof -
  let ?x = "Fin (2 powi (- 600))"
  have i: "js_int 2 = Fin 2" "js_int 1 = Fin 1" "js_neg (Fin 2) = Fin (- 2)" by simp_all
  have m21: "js_mul (Fin 2) (Fin 1) = Fin 2" "js_mul (Fin (- 2)) (Fin 1) = Fin (- 2)"
    by (simp_all add: js_mul_def)
  have dfdx: "partialXValue64 correctly_rounded (Saddle 1 1) ?x (Fin 0) = Fin (2 powi (- 599))"
    unfolding partialXValue64.simps i m21 by (rule tiny_squares)
  have dfdy: "partialYValue64 correctly_rounded (Saddle 1 1) ?x (Fin 0) = NegZero"
    unfolding partialYValue64.simps i m21 by (simp add: js_mul_zero js_zero_def)
  have mag: "js_math correctly_rounded BSqrt
      (js_add (js_mul (Fin (2 powi (- 599))) (Fin (2 powi (- 599)))) (js_mul NegZero NegZero)) = Fin 0"
    unfolding tiny_squares js_mul_zero js_add_zeros by simp
  have pos: "(0::real) < 2 powi (- 599)" by (rule zero_less_power_int) simp
  have lt: "\<not> js_lt (Fin 0) (Fin 0)" by (simp add: js_lt_def)
  have ax: "arrow_x (generateGradientArrows correctly_rounded (Saddle 1 1) ?x (Fin 0)) = [?x, ?x]"
    unfolding generateGradientArrows_def Let_def dfdx dfdy mag using lt
    by (simp only: if_False arrow_trace.simps tiny_squares)
  have ay: "arrow_y (generateGradientArrows correctly_rounded (Saddle 1 1) ?x (Fin 0)) = [Fin 0, Fin 0]"
    unfolding generateGradientArrows_def Let_def dfdx dfdy mag using lt
    by (simp only: if_False arrow_trace.simps js_add_zeros)
  from dfdx pos ax ay show ?thesis by (intro conjI)
qed

lemma sqrt_100: "sqrt 100 = 10"
  by (rule real_sqrt_unique) simp_all

theorem gradient_arrow_segment_witness:
  "gradient_magnitude correctly_rounded (Saddle 3 2) (Fin 1) (Fin (- 2)) = Fin 10
   \<and> js_lt (Fin 0) (gradient_magnitude correctly_rounded (Saddle 3 2) (Fin 1) (Fin (- 2)))
   \<and> arrow_x (generateGradientArrows correctly_rounded (Saddle 3 2) (Fin 1) (Fin (- 2)))
       = [Fin 1, js_add (Fin 1) (js_mul (js_div (Fin 6) (Fin 10)) arrow_scale)]
   \<and> arrow_y (generateGradientArrows correctly_rounded (Saddle 3 2) (Fin 1) (Fin (- 2)))
       = [Fin (- 2), js_add (Fin (- 2)) (js_mul (js_div (Fin 8) (Fin 10)) arrow_scale)]
   \<and> arrow_z (generateGradientArrows correctly_rounded (Saddle 3 2) (Fin 1) (Fin (- 2))) = [Fin (- 5), Fin (- 5)]
   \<and> js_is_zero (gradient_magnitude correctly_rounded (Saddle 2 1) (Fin 0) (Fin 0))
   \<and> \<not> js_lt (Fin 0) (gradient_magnitude correctly_rounded (Saddle 2 1) (Fin 0) (Fin 0))
   \<and> js_double (Fin 0) \<and> Fin 0 \<noteq> NegZero
   \<and> arrow_x (generateGradientArrows correctly_rounded (Saddle 2 1) (Fin 0) (Fin 0)) = [Fin 0, Fin 0]
   \<and> arrow_y (generateGradientArrows correctly_rounded (Saddle 2 1) (Fin 0) (Fin 0)) = [Fin 0, Fin 0]"
proof -
  let ?E = correctly_rounded
  have px: "partialXValue64 ?E (Saddle 3 2) (Fin 1) (Fin (- 2)) = Fin 6"
    and py: "partialYValue64 ?E (Saddle 3 2) (Fin 1) (Fin (- 2)) = Fin 8"
    and ev: "evaluate64 ?E (Saddle 3 2) (Fin 1) (Fin (- 2)) = Fin (- 5)"
    by (simp_all add: js_mul_def js_sub_def js_add_def)
  have m: "gradient_magnitude ?E (Saddle 3 2) (Fin 1) (Fin (- 2)) = Fin 10"
    unfolding gradient_magnitude_def Let_def px py
    by (simp add: js_mul_def js_add_def correctly_rounded_def sqrt_100)
  have pos: "js_lt (Fin 0) (gradient_magnitude ?E (Saddle 3 2) (Fin 1) (Fin (- 2)))"
    unfolding m by (simp add: js_lt_def)
  have m0: "gradient_magnitude ?E (Saddle 2 1) (Fin 0) (Fin 0) = Fin 0"
    by (simp add: gradient_magnitude_def Let_def js_mul_def js_add_def js_zero_def)
  have z: "js_is_zero (gradient_magnitude ?E (Saddle 2 1) (Fin 0) (Fin 0))"
    and nz: "\<not> js_lt (Fin 0) (gradient_magnitude ?E (Saddle 2 1) (Fin 0) (Fin 0))"
    unfolding m0 by (simp_all add: js_lt_def)
  have d: "js_double (Fin 0)" "Fin 0 \<noteq> NegZero" by simp_all
  note t1 = gradient_arrow_segment [of ?E "Saddle 3 2" "Fin 1" "Fin (- 2)", unfolded px py ev m]
  note t2 = gradient_arrow_segment [of ?E "Saddle 2 1" "Fin 0" "Fin 0"]
  from t1 pos [unfolded m]
  have a1: "arrow_x (generateGradientArrows ?E (Saddle 3 2) (Fin 1) (Fin (- 2)))
       = [Fin 1, js_add (Fin 1) (js_mul (js_div (Fin 6) (Fin 10)) arrow_scale)]"
    and a2: "arrow_y (generateGradientArrows ?E (Saddle 3 2) (Fin 1) (Fin (- 2)))
       = [Fin (- 2), js_add (Fin (- 2)) (js_mul (js_div (Fin 8) (Fin 10)) arrow_scale)]"
    and a3: "arrow_z (generateGradientArrows ?E (Saddle 3 2) (Fin 1) (Fin (- 2))) = [Fin (- 5), Fin (- 5)]"
    by blast+
  from t2 z d
  have b1: "arrow_x (generateGradientArrows ?E (Saddle 2 1) (Fin 0) (Fin 0)) = [Fin 0, Fin 0]"
    and b2: "arrow_y (generateGradientArrows ?E (Saddle 2 1) (Fin 0) (Fin 0)) = [Fin 0, Fin 0]"
    by blast+
  from m pos a1 a2 a3 z nz d b1 b2 show ?thesis by (intro conjI)
qed

section \<open>Evaluating learner expressions\<close>

text \<open>
  Parsing a concrete text is a computation on strings; the value of the parsed
  expression is then computed with the arithmetic of \<open>jsnum\<close>.
\<close>

lemmas number_simps = decimal_value_def digits_value_def digit_value_def binary_def
  js_add_def js_sub_def js_mul_def js_div_def js_inf_def js_zero_def js_lt_def within_tolerance_def

lemma parse_linear:
  "js_parse (program_text ''2*x+3*y'' 1 2) =
     Returns [SReturn (Some (EBin OpAdd (EBin OpMul (ENum ''2'' []) (ENum ''1'' []))
                                        (EBin OpMul (ENum ''3'' []) (ENum ''2'' []))))]"
  by code_simp

lemma parse_exp: "js_parse (program_text ''exp(x)'' 0 0) = Throws SyntaxError"
  by code_simp

lemma parse_one_over_x:
  "js_parse (program_text ''1/x'' 0 0) = Returns [SReturn (Some (EBin OpDiv (ENum ''1'' []) (ENum ''0'' [])))]"
  by code_simp

lemma parse_sqrt:
  "js_parse (program_text ''sqrt(x)'' (-1) 0) =
     Returns [SReturn (Some (ECall (EMember (EId ''Math'') ''sqrt'') [ENeg (ENum ''1'' [])]))]"
  by code_simp

lemma parse_loop:
  "js_parse (program_text ''(function(){for(;;);})()'' 0 0) =
     Returns [SReturn (Some (ECall (EFunction [SForever]) []))]"
  by code_simp

lemma substitute_sin_open: "substitute ''sin('' x y = ''Math.sin(''"
  by (simp add: substitute_def MATH_E_def MATH_PI_def pi_char_def)

lemma parse_sin_open: "js_parse (use_strict @ '' return ('' @ ''Math.sin('' @ '')'') = Throws SyntaxError"
  by code_simp

lemmas eval_simps = evaluateExpression_def js_Function_def obind_def number_simps

lemma eval_linear: "evaluateExpression E ''2*x+3*y'' 1 2 = Returns (VNum (Fin 8), [])"
  by (simp add: eval_simps parse_linear)

lemma eval_exp: "evaluateExpression E ''exp(x)'' 0 0 = Returns (VNum NaN, [SyntaxError])"
  by (simp add: eval_simps parse_exp)

lemma eval_one_over_x: "evaluateExpression E ''1/x'' 0 0 = Returns (VNum PosInf, [])"
  by (simp add: eval_simps parse_one_over_x)

lemma eval_sqrt: "evaluateExpression E ''sqrt(x)'' (-1) 0 = Returns (VNum NaN, [])"
  by (simp add: eval_simps parse_sqrt math_member_def)

lemma js_Function_open: "js_Function E (program_text ''sin('' x y) = Throws SyntaxError"
  by (simp add: js_Function_def program_text_def substitute_sin_open parse_sin_open [simplified] obind_def)

lemma eval_sin_open: "evaluateExpression E ''sin('' x y = Returns (VNum NaN, [SyntaxError])"
  by (simp add: evaluateExpression_def js_Function_open)

lemma eval_loop: "evaluateExpression E ''(function(){for(;;);})()'' 0 0 = Diverges"
  by (simp add: eval_simps parse_loop)

lemma js_Function_inv: "js_Function E (program_text ''1/x'' 0 0) = Returns (VNum PosInf)"
  by (simp add: js_Function_def parse_one_over_x obind_def number_simps)

lemma js_div_by_zero: "js_is_zero b \<Longrightarrow> js_div a b = NaN \<or> js_div a b = PosInf \<or> js_div a b = NegInf"
  by (cases b) (auto simp: js_div_def js_inf_def)

text \<open>
  Claim C2 fails on the code. The replacements work on characters, not on
  identifiers: in \<^verbatim>\<open>exp(x)\<close> the first replacement rewrites the \<^verbatim>\<open>x\<close> of \<^verbatim>\<open>exp\<close>, the
  fourth its \<^verbatim>\<open>e\<close>, and the later replacement of \<^verbatim>\<open>exp\<close> by \<^verbatim>\<open>Math.exp\<close> finds nothing
  left to match. With \<open>x = 0\<close>, \<open>y = 0\<close> the host is handed a text that is no
  expression, and the evaluator returns \<open>NaN\<close> where the claim says 1. The second
  example of the claim holds: \<^verbatim>\<open>2*x+3*y\<close> with \<open>x = 1\<close>, \<open>y = 2\<close> evaluates to 8.
\<close>

theorem exp_is_corrupted_by_the_replacements:
  "substitute ''exp(x)'' 0 0 = ''2.718281828459045(0)p((0))''
   \<and> evaluateExpression E ''exp(x)'' 0 0 = Returns (VNum NaN, [SyntaxError])
   \<and> evaluateExpression E ''2*x+3*y'' 1 2 = Returns (VNum (Fin 8), [])"
proof -
  have "substitute ''exp(x)'' 0 0 = ''2.718281828459045(0)p((0))''"
    by code_simp
  then show ?thesis
    by (simp add: eval_exp eval_linear)
qed

text \<open>
  Claim C10 fails on the code. The text is run as a program, and a program need not
  return: the learner text below contains none of the replaced characters, reaches
  the host unchanged, and loops for ever, so \<^verbatim>\<open>evaluateExpression\<close> returns no value.
\<close>

theorem evaluation_may_not_return:
  "substitute ''(function(){for(;;);})()'' 0 0 = ''(function(){for(;;);})()''
   \<and> evaluateExpression E ''(function(){for(;;);})()'' 0 0 = Diverges"
proof -
  have "substitute ''(function(){for(;;);})()'' 0 0 = ''(function(){for(;;);})()''"
    by code_simp
  then show ?thesis
    by (simp add: eval_loop)
qed

text \<open>
  What does hold of every input: \<^verbatim>\<open>evaluateExpression\<close> never throws, since the
  \<^verbatim>\<open>catch\<close> block turns every error of the host into \<open>NaN\<close>.
\<close>

lemma evaluateExpression_never_throws: "evaluateExpression E expr x y \<noteq> Throws err"
  by (simp add: evaluateExpression_def split: outcome.split)

theorem evaluateExpression_catches_every_error:
  "evaluateExpression E expr x y \<noteq> Throws err"
  by (rule evaluateExpression_never_throws)

text \<open>
  Claim C3 fails on the code: there is no \<^verbatim>\<open>DomainError\<close> and no \<^verbatim>\<open>ParseError\<close>. The
  counterexample: \<^verbatim>\<open>1/x\<close> with \<open>x = 0\<close>, \<open>y = 0\<close> does not fail, it returns the value
  \<^verbatim>\<open>Infinity\<close>, and nothing is logged.
\<close>

theorem division_by_zero_returns_infinity:
  "evaluateExpression correctly_rounded ''1/x'' 0 0 = Returns (VNum PosInf, [])"
  by (rule eval_one_over_x)

text \<open>
  Claim C3 as amended. \<^verbatim>\<open>evaluateExpression\<close> never throws. When the host returns a
  value, finite or not, that value is returned and nothing is logged; when the host
  throws, the error is logged and \<open>NaN\<close> is returned. A division by zero yields
  \<open>NaN\<close> or an infinity, and the square root of a negative number \<open>NaN\<close>. So
  \<^verbatim>\<open>1/x\<close> with \<open>x = 0\<close>, \<open>y = 0\<close> returns \<^verbatim>\<open>Infinity\<close>, \<^verbatim>\<open>sqrt(x)\<close> with \<open>x = -1\<close>
  returns \<open>NaN\<close> with nothing logged, and the malformed \<^verbatim>\<open>sin(\<close> returns \<open>NaN\<close> after
  the host's \<^verbatim>\<open>SyntaxError\<close> has been caught and logged.
\<close>

theorem undefined_results_are_values:
  "evaluateExpression E expr x y \<noteq> Throws err
   \<and> (js_Function E (program_text expr x y) = Returns v \<longrightarrow> evaluateExpression E expr x y = Returns (v, []))
   \<and> (js_Function E (program_text expr x y) = Throws err \<longrightarrow> evaluateExpression E expr x y = Returns (VNum NaN, [err]))
   \<and> (js_is_zero b \<longrightarrow> js_div a b = NaN \<or> js_div a b = PosInf \<or> js_div a b = NegInf)
   \<and> (r < 0 \<longrightarrow> js_math E BSqrt (Fin r) = NaN)
   \<and> evaluateExpression E ''1/x'' 0 0 = Returns (VNum PosInf, [])
   \<and> evaluateExpression E ''sqrt(x)'' (- 1) 0 = Returns (VNum NaN, [])
   \<and> evaluateExpression E ''sin('' x y = Returns (VNum NaN, [SyntaxError])"
  using js_div_by_zero [of b a]
  by (simp add: evaluateExpression_never_throws eval_one_over_x eval_sqrt eval_sin_open)
     (simp add: evaluateExpression_def)

theorem undefined_results_are_values_witness:
  "js_Function correctly_rounded (program_text ''1/x'' 0 0) = Returns (VNum PosInf)
   \<and> evaluateExpression correctly_rounded ''1/x'' 0 0 = Returns (VNum PosInf, [])
   \<and> js_Function correctly_rounded (program_text ''sin('' 0 0) = Throws SyntaxError
   \<and> evaluateExpression correctly_rounded ''sin('' 0 0 = Returns (VNum NaN, [SyntaxError])
   \<and> js_is_zero (Fin 0) \<and> js_div (Fin 1) (Fin 0) = PosInf
   \<and> (- 1 :: real) < 0 \<and> js_math correctly_rounded BSqrt (Fin (- 1)) = NaN"
proof -
  note t1 = undefined_results_are_values [of correctly_rounded "''1/x''" 0 0 SyntaxError "VNum PosInf" "Fin 0" "Fin 1" "- 1"]
  note t2 = undefined_results_are_values [of correctly_rounded "''sin(''" 0 0 SyntaxError "VNum PosInf" "Fin 0" "Fin 1" "- 1"]
  have d: "js_div (Fin 1) (Fin 0) = PosInf"
    by (simp add: js_div_def js_inf_def)
  from t1 t2 js_Function_inv [of correctly_rounded] js_Function_open [of correctly_rounded 0 0] d show ?thesis
    by simp
qed

section \<open>Grading\<close>

text \<open>
  The comparison \<^verbatim>\<open>Math.abs(u - c) < tolerance\<close>: the difference is rounded, and
  the tolerance is the double nearest to 0.05, which is \<open>3602879701896397 / 2\<^sup>5\<^sup>6\<close>
  and slightly above 0.05. A value that is not finite on either side never matches.
\<close>

lemma first_question_fields [simp]:
  "currentQuestion (first_question q) = Some q"
  "stats (first_question q) = \<lparr>correct = 0, attempted = 0\<rparr>"
  "console (first_question q) = []"
  by (simp_all add: first_question_def)

lemma rounded_below:
  assumes "0 < t" and "t < 2 ^ 1024"
  shows "js_lt (js_abs (number_value x)) (Fin t) \<longleftrightarrow> \<bar>fl64 x\<bar> < t"
proof (cases "x = 0")
  case True
  with assms show ?thesis by (simp add: number_value_def js_lt_def fl64_def)
next
  case False
  show ?thesis
  proof (cases "2 ^ 1024 \<le> \<bar>fl64 x\<bar>")
    case True
    with False assms show ?thesis by (simp add: number_value_def js_lt_def js_inf_def)
  next
    case small: False
    with False assms show ?thesis by (simp add: number_value_def js_lt_def js_zero_def)
  qed
qed

lemma js_sub_finite:
  assumes "js_finite a" and "js_finite b"
  shows "js_sub a b = (if a = NegZero \<and> b = Fin 0 then NegZero else number_value (js_real a - js_real b))"
  using assms by (cases a; cases b) (simp_all add: js_sub_def js_add_def)

lemma js_sub_not_finite:
  assumes "\<not> (js_finite a \<and> js_finite b)"
  shows "js_sub a b = NaN \<or> js_sub a b = PosInf \<or> js_sub a b = NegInf"
  using assms by (cases a; cases b) (simp_all add: js_sub_def js_add_def)

lemma within_tolerance_finite:
  assumes "js_finite a" and "js_finite b" and "0 < t" and "t < 2 ^ 1024"
  shows "within_tolerance a b (Fin t) \<longleftrightarrow> \<bar>fl64 (js_real a - js_real b)\<bar> < t"
proof (cases "a = NegZero \<and> b = Fin 0")
  case True
  with assms(3) show ?thesis
    by (simp add: within_tolerance_def js_sub_def js_add_def js_lt_def fl64_def)
next
  case False
  then have "js_sub a b = number_value (js_real a - js_real b)"
    using js_sub_finite [OF assms(1,2)] by simp
  then show ?thesis
    unfolding within_tolerance_def using rounded_below [OF assms(3,4)] by simp
qed

lemma within_tolerance_not_finite:
  assumes "\<not> (js_finite a \<and> js_finite b)"
  shows "\<not> within_tolerance a b t"
  using js_sub_not_finite [OF assms] by (auto simp: within_tolerance_def js_lt_def)

lemma within_tolerance_iff:
  "within_tolerance a b grading_tolerance \<longleftrightarrow>
     js_finite a \<and> js_finite b \<and> \<bar>fl64 (js_real a - js_real b)\<bar> < 3602879701896397 / 2 ^ 56"
proof (cases "js_finite a \<and> js_finite b")
  case True
  then have "within_tolerance a b (Fin (3602879701896397 / 2 ^ 56))
      \<longleftrightarrow> \<bar>fl64 (js_real a - js_real b)\<bar> < 3602879701896397 / 2 ^ 56"
    by (intro within_tolerance_finite) simp_all
  with True show ?thesis unfolding grading_tolerance_value by blast
next
  case False
  with within_tolerance_not_finite [OF False] show ?thesis by blast
qed

text \<open>
  The learner texts of the examples, parsed and evaluated. The caret is replaced by
  \<^verbatim>\<open>**\<close>, and the host refuses a unary minus in front of the left operand of
  \<^verbatim>\<open>**\<close>. The text \<^verbatim>\<open>1n\<close> is a BigInt literal.
\<close>

lemma parse_probe: "js_parse (program_text ''x'' 1 1) = Returns [SReturn (Some (ENum ''1'' []))]"
  by code_simp
lemma parse_two_11: "js_parse (program_text ''2'' 1 1) = Returns [SReturn (Some (ENum ''2'' []))]"
  by code_simp
lemma parse_x_23: "js_parse (program_text ''x'' 2 3) = Returns [SReturn (Some (ENum ''2'' []))]"
  by code_simp
lemma parse_4x: "js_parse (program_text ''4*x'' 1 (-1)) = Returns [SReturn (Some (EBin OpMul (ENum ''4'' []) (ENum ''1'' [])))]"
  by code_simp
lemma parse_two_1m1: "js_parse (program_text ''2'' 1 (-1)) = Returns [SReturn (Some (ENum ''2'' []))]"
  by code_simp
lemma parse_five_1m1: "js_parse (program_text ''5'' 1 (-1)) = Returns [SReturn (Some (ENum ''5'' []))]"
  by code_simp
lemma parse_inv_0m1: "js_parse (program_text ''1/x'' 0 (-1)) = Returns [SReturn (Some (EBin OpDiv (ENum ''1'' []) (ENum ''0'' [])))]"
  by code_simp
lemma parse_two_0m1: "js_parse (program_text ''2'' 0 (-1)) = Returns [SReturn (Some (ENum ''2'' []))]"
  by code_simp
lemma parse_bigint_1m1: "js_parse (program_text ''1n'' 1 (-1)) = Returns [SReturn (Some (EBig ''1''))]"
  by code_simp
lemma parse_boundary_1m1: "js_parse (program_text ''4.05'' 1 (-1)) = Returns [SReturn (Some (ENum ''4'' ''05''))]"
  by code_simp
lemma parse_square: "js_parse (program_text ''x^2'' 3 0) = Returns [SReturn (Some (EBin OpPow (ENum ''3'' []) (ENum ''2'' [])))]"
  by code_simp
lemma parse_neg_square: "js_parse (program_text ''-x^2'' 3 0) = Throws SyntaxError"
  by code_simp

lemma eval_probe: "evaluateExpression E ''x'' 1 1 = Returns (VNum (Fin 1), [])"
  by (simp add: eval_simps parse_probe)
lemma eval_two_11: "evaluateExpression E ''2'' 1 1 = Returns (VNum (Fin 2), [])"
  by (simp add: eval_simps parse_two_11)
lemma eval_x_23: "evaluateExpression E ''x'' 2 3 = Returns (VNum (Fin 2), [])"
  by (simp add: eval_simps parse_x_23)
lemma eval_4x: "evaluateExpression E ''4*x'' 1 (-1) = Returns (VNum (Fin 4), [])"
  by (simp add: eval_simps parse_4x)
lemma eval_two_1m1: "evaluateExpression E ''2'' 1 (-1) = Returns (VNum (Fin 2), [])"
  by (simp add: eval_simps parse_two_1m1)
lemma eval_five_1m1: "evaluateExpression E ''5'' 1 (-1) = Returns (VNum (Fin 5), [])"
  by (simp add: eval_simps parse_five_1m1)
lemma eval_inv_0m1: "evaluateExpression E ''1/x'' 0 (-1) = Returns (VNum PosInf, [])"
  by (simp add: eval_simps parse_inv_0m1)
lemma eval_two_0m1: "evaluateExpression E ''2'' 0 (-1) = Returns (VNum (Fin 2), [])"
  by (simp add: eval_simps parse_two_0m1)
lemma eval_bigint_1m1: "evaluateExpression E ''1n'' 1 (-1) = Returns (VBigInt 1, [])"
  by (simp add: eval_simps parse_bigint_1m1)

lemma fl64_boundary: "fl64 (81 / 20) = 4559894622712627 / 2 ^ 50"
  by (subst fl64_eval [where e = "2" and q = "- 50"])
     (simp_all add: round_half_even_def power_int_minus_divide)

lemma eval_boundary_1m1:
  "evaluateExpression E ''4.05'' 1 (-1) = Returns (VNum (Fin (4559894622712627 / 2 ^ 50)), [])"
proof -
  have "number_value (81 / 20) = Fin (4559894622712627 / 2 ^ 50)"
    by (rule number_value_fl64 [OF fl64_boundary]) simp_all
  then show ?thesis
    by (simp add: eval_simps parse_boundary_1m1)
qed

lemma trim_plain [simp]:
  "trim ''4*x'' = ''4*x''" "trim ''2'' = ''2''" "trim ''1/x'' = ''1/x''" "trim ''sin('' = ''sin(''"
  "trim ''5'' = ''5''" "trim ''1n'' = ''1n''" "trim ''4.05'' = ''4.05''"
  by code_simp+

lemma trim_blank: "trim ''  '' = []" "trim [CHR 0xC2, CHR 0xA0] = []"
  by code_simp+

text \<open>
  What \<^verbatim>\<open>checkAnswer\<close> does to the session when both evaluations return a value
  that the subtraction converts to a number.
\<close>

lemma checkAnswer_graded:
  assumes q: "currentQuestion S = Some q"
    and a: "trim a \<noteq> []" and b: "trim b \<noteq> []"
    and ex: "evaluateExpression E (trim a) (fst (point q)) (snd (point q)) = Returns (vx, lx)"
    and ey: "evaluateExpression E (trim b) (fst (point q)) (snd (point q)) = Returns (vy, ly)"
    and nx: "ToNumber vx = Returns u" and ny: "ToNumber vy = Returns v"
    and dx: "dx = within_tolerance u
       (partialXValue64 E (func q) (js_int (fst (point q))) (js_int (snd (point q)))) grading_tolerance"
    and dy: "dy = within_tolerance v
       (partialYValue64 E (func q) (js_int (fst (point q))) (js_int (snd (point q)))) grading_tolerance"
  shows "checkAnswer E a b S =
     Returns (S\<lparr>
       stats := \<lparr>correct = (if dx \<and> dy then correct (stats S) + 1 else correct (stats S)),
                 attempted = attempted (stats S) + 1\<rparr>,
       console := console S @ lx @ ly,
       feedback := Some (dx, dy, dx \<and> dy),
       currentQuestion := Some (q\<lparr>answered := True, verdict := Some (dx \<and> dy)\<rparr>),
       answerInputShown := False,
       submitShown := False\<rparr>)"
  using a b by (simp add: checkAnswer_def Let_def q ex ey nx ny dx dy obind_def)

lemma checkAnswer_returns_evaluated:
  assumes "currentQuestion S = Some q" and "trim a \<noteq> []" and "trim b \<noteq> []"
    and "checkAnswer E a b S = Returns S1"
  shows "\<exists>vx lx vy ly u v.
      evaluateExpression E (trim a) (fst (point q)) (snd (point q)) = Returns (vx, lx)
      \<and> evaluateExpression E (trim b) (fst (point q)) (snd (point q)) = Returns (vy, ly)
      \<and> ToNumber vx = Returns u \<and> ToNumber vy = Returns v"
  using assms
  by (auto simp: checkAnswer_def Let_def obind_def split: outcome.splits prod.splits)

text \<open>
  Claim C4 fails on \<^verbatim>\<open>compareAnswers\<close>, one of the two comparison paths of the
  source: it has no point parameter and evaluates both texts at the fixed point
  \<open>(1, 1)\<close>. The learner text \<^verbatim>\<open>x\<close>, whose value at the point \<open>(2, 3)\<close> is 2, is
  compared with 2 as the value 1 and declared not matching, with the grading
  tolerance as with the default one.
\<close>

theorem compareAnswers_reads_x_as_one:
  "compareAnswers correctly_rounded ''x'' ''2'' (Some grading_tolerance) = Returns (False, [])
   \<and> evaluateExpression correctly_rounded ''x'' 2 3 = Returns (VNum (Fin 2), [])
   \<and> compareAnswers correctly_rounded ''x'' ''2'' None = Returns (False, [])"
proof -
  have "\<not> within_tolerance (Fin 1) (Fin 2) grading_tolerance"
    by (simp add: within_tolerance_def js_sub_def js_add_def js_lt_def grading_tolerance_value)
  moreover have "\<not> within_tolerance (Fin 1) (Fin 2) (number_value (1 / 100))"
    unfolding default_tolerance_value by (simp add: within_tolerance_def js_sub_def js_add_def js_lt_def)
  ultimately show ?thesis
    by (simp add: compareAnswers_def eval_probe eval_two_11 eval_x_23 obind_def js_isNaN_def)
qed

text \<open>
  Claim C4 as amended. \<^verbatim>\<open>checkAnswer\<close>, the only grading path the program invokes,
  evaluates each learner text at the question's point. For texts of the fragment,
  which leave the session as it is: when both evaluations return values that the
  subtraction converts to numbers \<open>u\<close> and \<open>v\<close>, an answer matches exactly when its number and the analytic value, computed in doubles, are
  both finite and the absolute value of their rounded difference is strictly less
  than the double nearest to 0.05. The question is marked correct exactly when
  both answers match; one attempt is counted, and one correct answer when both match.
  \<^verbatim>\<open>compareAnswers\<close>, which nothing calls, evaluates both of its texts at \<open>(1, 1)\<close>;
  when both values are numbers it answers whether neither is \<^verbatim>\<open>NaN\<close> and the absolute
  value of their rounded difference is strictly less than its tolerance, by default
  the double nearest to 0.01.
\<close>

theorem checkAnswer_grades_at_the_point:
  assumes "currentQuestion S = Some q"
    and "trim a \<noteq> []" and "trim b \<noteq> []"
    and "evaluateExpression E (trim a) (fst (point q)) (snd (point q)) = Returns (vx, lx)"
    and "evaluateExpression E (trim b) (fst (point q)) (snd (point q)) = Returns (vy, ly)"
    and "ToNumber vx = Returns u" and "ToNumber vy = Returns v"
  shows "(\<exists>S' q' dx dy.
     checkAnswer E a b S = Returns S'
     \<and> dx = (js_finite u
             \<and> js_finite (partialXValue64 E (func q) (js_int (fst (point q))) (js_int (snd (point q))))
             \<and> \<bar>fl64 (js_real u
                  - js_real (partialXValue64 E (func q) (js_int (fst (point q))) (js_int (snd (point q)))))\<bar>
                 < 3602879701896397 / 2 ^ 56)
     \<and> dy = (js_finite v
             \<and> js_finite (partialYValue64 E (func q) (js_int (fst (point q))) (js_int (snd (point q))))
             \<and> \<bar>fl64 (js_real v
                  - js_real (partialYValue64 E (func q) (js_int (fst (point q))) (js_int (snd (point q)))))\<bar>
                 < 3602879701896397 / 2 ^ 56)
     \<and> feedback S' = Some (dx, dy, dx \<and> dy)
     \<and> currentQuestion S' = Some q' \<and> answered q' \<and> verdict q' = Some (dx \<and> dy)
     \<and> func q' = func q \<and> point q' = point q
     \<and> correct (stats S') = correct (stats S) + (if dx \<and> dy then 1 else 0)
     \<and> attempted (stats S') = attempted (stats S) + 1)
   \<and> (evaluateExpression E ua 1 1 = Returns (VNum n1, l1)
        \<and> evaluateExpression E ca 1 1 = Returns (VNum n2, l2) \<longrightarrow>
      compareAnswers E ua ca t =
        Returns (n1 \<noteq> NaN \<and> n2 \<noteq> NaN
                 \<and> within_tolerance n1 n2 (case t of None \<Rightarrow> number_value (1 / 100) | Some t' \<Rightarrow> t'),
                 l1 @ l2))"
proof (intro conjI impI)
  show "\<exists>S' q' dx dy.
     checkAnswer E a b S = Returns S'
     \<and> dx = (js_finite u
             \<and> js_finite (partialXValue64 E (func q) (js_int (fst (point q))) (js_int (snd (point q))))
             \<and> \<bar>fl64 (js_real u
                  - js_real (partialXValue64 E (func q) (js_int (fst (point q))) (js_int (snd (point q)))))\<bar>
                 < 3602879701896397 / 2 ^ 56)
     \<and> dy = (js_finite v
             \<and> js_finite (partialYValue64 E (func q) (js_int (fst (point q))) (js_int (snd (point q))))
             \<and> \<bar>fl64 (js_real v
                  - js_real (partialYValue64 E (func q) (js_int (fst (point q))) (js_int (snd (point q)))))\<bar>
                 < 3602879701896397 / 2 ^ 56)
     \<and> feedback S' = Some (dx, dy, dx \<and> dy)
     \<and> currentQuestion S' = Some q' \<and> answered q' \<and> verdict q' = Some (dx \<and> dy)
     \<and> func q' = func q \<and> point q' = point q
     \<and> correct (stats S') = correct (stats S) + (if dx \<and> dy then 1 else 0)
     \<and> attempted (stats S') = attempted (stats S) + 1"
    unfolding checkAnswer_graded [OF assms refl refl] within_tolerance_iff by simp
next
  assume "evaluateExpression E ua 1 1 = Returns (VNum n1, l1)
        \<and> evaluateExpression E ca 1 1 = Returns (VNum n2, l2)"
  then show "compareAnswers E ua ca t =
        Returns (n1 \<noteq> NaN \<and> n2 \<noteq> NaN
                 \<and> within_tolerance n1 n2 (case t of None \<Rightarrow> number_value (1 / 100) | Some t' \<Rightarrow> t'),
                 l1 @ l2)"
    by (simp add: compareAnswers_def obind_def js_isNaN_def)
qed

theorem checkAnswer_grades_at_the_point_witness:
  "currentQuestion (first_question (new_question saddle (Saddle 2 1) (1, - 1)))
     = Some (new_question saddle (Saddle 2 1) (1, - 1))
   \<and> trim ''4.05'' \<noteq> [] \<and> trim ''2'' \<noteq> []
   \<and> evaluateExpression correctly_rounded (trim ''4.05'') 1 (- 1)
       = Returns (VNum (Fin (4559894622712627 / 2 ^ 50)), [])
   \<and> evaluateExpression correctly_rounded (trim ''2'') 1 (- 1) = Returns (VNum (Fin 2), [])
   \<and> ToNumber (VNum (Fin (4559894622712627 / 2 ^ 50))) = Returns (Fin (4559894622712627 / 2 ^ 50))
   \<and> ToNumber (VNum (Fin 2)) = Returns (Fin 2)
   \<and> partialXValue64 correctly_rounded (Saddle 2 1) (js_int 1) (js_int (- 1)) = Fin 4
   \<and> partialYValue64 correctly_rounded (Saddle 2 1) (js_int 1) (js_int (- 1)) = Fin 2
   \<and> fl64 (4559894622712627 / 2 ^ 50 - 4) = 56294995342131 / 2 ^ 50
   \<and> (\<exists>S'. checkAnswer correctly_rounded ''4.05'' ''2''
              (first_question (new_question saddle (Saddle 2 1) (1, - 1))) = Returns S'
          \<and> feedback S' = Some (True, True, True)
          \<and> correct (stats S') = 1 \<and> attempted (stats S') = 1)
   \<and> evaluateExpression correctly_rounded ''x'' 1 1 = Returns (VNum (Fin 1), [])
   \<and> evaluateExpression correctly_rounded ''2'' 1 1 = Returns (VNum (Fin 2), [])
   \<and> compareAnswers correctly_rounded ''x'' ''2'' None
       = Returns (within_tolerance (Fin 1) (Fin 2) (number_value (1 / 100)), [])"
proof -
  let ?q = "new_question saddle (Saddle 2 1) (1, - 1)"
  let ?S = "first_question ?q"
  let ?E = correctly_rounded
  let ?u = "Fin (4559894622712627 / 2 ^ 50)"
  have q: "currentQuestion ?S = Some ?q" by simp
  have p: "fst (point ?q) = 1" "snd (point ?q) = - 1" "func ?q = Saddle 2 1"
    by (simp_all add: new_question_def)
  have a: "trim ''4.05'' \<noteq> []" and b: "trim ''2'' \<noteq> []" by simp_all
  have ex: "evaluateExpression ?E (trim ''4.05'') (fst (point ?q)) (snd (point ?q)) = Returns (VNum ?u, [])"
    by (simp add: p eval_boundary_1m1)
  have ey: "evaluateExpression ?E (trim ''2'') (fst (point ?q)) (snd (point ?q)) = Returns (VNum (Fin 2), [])"
    by (simp add: p eval_two_1m1)
  have nx: "ToNumber (VNum ?u) = Returns ?u" and ny: "ToNumber (VNum (Fin 2)) = Returns (Fin 2)"
    by simp_all
  have px: "partialXValue64 ?E (Saddle 2 1) (js_int 1) (js_int (- 1)) = Fin 4"
    and py: "partialYValue64 ?E (Saddle 2 1) (js_int 1) (js_int (- 1)) = Fin 2"
    by (simp_all add: js_mul_def)
  have d: "fl64 (4559894622712627 / 2 ^ 50 - 4) = 56294995342131 / 2 ^ 50"
    by (rule trans [OF fl64_exact [where m = 56294995342131 and q = "- 50"]])
       (simp_all add: power_int_minus_divide)
  have z: "fl64 (2 - 2) = 0" by (simp add: fl64_def)
  have c1: "evaluateExpression ?E ''x'' 1 1 = Returns (VNum (Fin 1), [])" by (rule eval_probe)
  have c2: "evaluateExpression ?E ''2'' 1 1 = Returns (VNum (Fin 2), [])" by (rule eval_two_11)
  note t = checkAnswer_grades_at_the_point [OF q a b ex ey nx ny,
      of "''x''" "Fin 1" "[]" "''2''" "Fin 2" "[]" None, unfolded p px py]
  from t obtain S' where "checkAnswer ?E ''4.05'' ''2'' ?S = Returns S'"
    and "feedback S' = Some (True, True, True)"
    and "correct (stats S') = 1" and "attempted (stats S') = 1"
    unfolding js_real.simps d z by (auto simp: first_question_def)
  moreover from t c1 c2 have "compareAnswers ?E ''x'' ''2'' None
       = Returns (within_tolerance (Fin 1) (Fin 2) (number_value (1 / 100)), [])"
    by simp
  ultimately show ?thesis
    using q a b ex ey nx ny px py d c1 c2 unfolding p by blast
qed

text \<open>
  Claim C5 fails on the code. The learner text \<^verbatim>\<open>1n\<close> evaluates without an error:
  \<^verbatim>\<open>evaluateExpression\<close> returns the BigInt 1 and logs nothing. The subtraction
  \<^verbatim>\<open>userDfDxValue - correctDfDx\<close> of \<^verbatim>\<open>checkAnswer\<close>, which is outside any \<^verbatim>\<open>try\<close>,
  then throws a \<^verbatim>\<open>TypeError\<close>: the grading operation ends in an uncaught fault, with
  no verdict, no feedback and no attempt counted.
\<close>

theorem bigint_answer_throws:
  "evaluateExpression E ''1n'' 1 (- 1) = Returns (VBigInt 1, [])
   \<and> checkAnswer E ''1n'' ''2'' (first_question (new_question saddle (Saddle 2 1) (1, - 1)))
       = Throws TypeError"
  by (simp add: checkAnswer_def Let_def obind_def new_question_def eval_bigint_1m1 eval_two_1m1)

text \<open>
  A text on which the host throws is graded as not matching, and the error is logged
  on the console: here the malformed \<^verbatim>\<open>sin(\<close> as the first answer, on a saddle
  question at \<open>(1, -1)\<close>, for every host.
\<close>

theorem malformed_answer_is_reported:
  "checkAnswer E ''sin('' ''2'' (first_question (new_question saddle (Saddle 2 1) (1, - 1)))
   = Returns ((first_question (new_question saddle (Saddle 2 1) (1, - 1)))\<lparr>
       currentQuestion := Some (new_question saddle (Saddle 2 1) (1, - 1)\<lparr>answered := True, verdict := Some False\<rparr>),
       stats := \<lparr>correct = 0, attempted = 1\<rparr>,
       console := [SyntaxError],
       feedback := Some (False, True, False),
       answerInputShown := False, submitShown := False\<rparr>)"
proof -
  have f: "fl64 0 = 0" by (simp add: fl64_def)
  show ?thesis
    by (simp add: checkAnswer_def Let_def obind_def first_question_def new_question_def eval_sin_open
        eval_two_1m1 js_mul_def within_tolerance_iff f)
qed

text \<open>
  A mathematically undefined answer is graded as not matching as well, but nothing is
  reported: \<^verbatim>\<open>1/x\<close> at a point with \<open>x = 0\<close> is the value \<^verbatim>\<open>Infinity\<close>, the console
  stays empty.
\<close>

theorem division_by_zero_is_not_reported:
  "checkAnswer E ''1/x'' ''2'' (first_question (new_question saddle (Saddle 2 1) (0, -1)))
   = Returns ((first_question (new_question saddle (Saddle 2 1) (0, - 1)))\<lparr>
       currentQuestion := Some (new_question saddle (Saddle 2 1) (0, -1)\<lparr>answered := True, verdict := Some False\<rparr>),
       stats := \<lparr>correct = 0, attempted = 1\<rparr>,
       console := [],
       feedback := Some (False, True, False),
       answerInputShown := False, submitShown := False\<rparr>)"
  by (simp add: checkAnswer_def Let_def obind_def first_question_def new_question_def eval_inv_0m1 eval_two_0m1
        js_mul_def js_zero_def within_tolerance_iff fl64_def)

text \<open>
  Claim C6 fails on the code: \<^verbatim>\<open>checkAnswer\<close> never reads the question's
  \<^verbatim>\<open>answered\<close> field. On a saddle question at \<open>(1, -1)\<close>, a correct submission
  followed by a second, incorrect one counts two attempts and turns the verdict
  stored on the question from correct to incorrect.
\<close>

theorem second_submission_counts_again:
  "obind (checkAnswer correctly_rounded ''4*x'' ''2''
            (first_question (new_question saddle (Saddle 2 1) (1, - 1))))
         (checkAnswer correctly_rounded ''5'' ''2'')
   = Returns ((first_question (new_question saddle (Saddle 2 1) (1, - 1)))\<lparr>
       currentQuestion := Some (new_question saddle (Saddle 2 1) (1, - 1)\<lparr>answered := True, verdict := Some False\<rparr>),
       stats := \<lparr>correct = 1, attempted = 2\<rparr>,
       feedback := Some (False, True, False),
       answerInputShown := False, submitShown := False\<rparr>)"
proof -
  have f: "fl64 1 = 1" "fl64 0 = 0"
    using fl64_exact [of 1 1 0] by (simp_all add: fl64_def)
  show ?thesis
    by (simp add: checkAnswer_def Let_def obind_def first_question_def new_question_def eval_4x eval_two_1m1
        eval_five_1m1 js_mul_def within_tolerance_iff f)
qed

text \<open>
  Claim C6 as amended. A grading that returns sets the question's \<^verbatim>\<open>answered\<close> and
  \<^verbatim>\<open>correct\<close> fields, counts the attempt, and hides the answer inputs and the submit
  button; that is the only protection against a second submission. \<^verbatim>\<open>checkAnswer\<close>
  itself does not reject one: called again on the graded question with two non-empty
  answers of the fragment whose evaluations return values that the subtraction
  converts to numbers, it grades again by the same comparison, counts a second attempt, and overwrites
  the verdict.
\<close>

theorem resubmission_is_graded_again:
  assumes "currentQuestion S = Some q" and "trim a \<noteq> []" and "trim b \<noteq> []"
    and "checkAnswer E a b S = Returns S1"
    and "trim a' \<noteq> []" and "trim b' \<noteq> []"
    and "evaluateExpression E (trim a') (fst (point q)) (snd (point q)) = Returns (vx', lx')"
    and "evaluateExpression E (trim b') (fst (point q)) (snd (point q)) = Returns (vy', ly')"
    and "ToNumber vx' = Returns u'" and "ToNumber vy' = Returns v'"
  shows "\<exists>q1 r S2 q2 r'.
      currentQuestion S1 = Some q1 \<and> answered q1 \<and> verdict q1 = Some r
      \<and> attempted (stats S1) = attempted (stats S) + 1
      \<and> correct (stats S1) = correct (stats S) + (if r then 1 else 0)
      \<and> \<not> submitShown S1 \<and> \<not> answerInputShown S1
      \<and> checkAnswer E a' b' S1 = Returns S2
      \<and> currentQuestion S2 = Some q2 \<and> answered q2 \<and> verdict q2 = Some r'
      \<and> r' = ((js_finite u'
                 \<and> js_finite (partialXValue64 E (func q) (js_int (fst (point q))) (js_int (snd (point q))))
                 \<and> \<bar>fl64 (js_real u'
                      - js_real (partialXValue64 E (func q) (js_int (fst (point q))) (js_int (snd (point q)))))\<bar>
                     < 3602879701896397 / 2 ^ 56)
              \<and> (js_finite v'
                 \<and> js_finite (partialYValue64 E (func q) (js_int (fst (point q))) (js_int (snd (point q))))
                 \<and> \<bar>fl64 (js_real v'
                      - js_real (partialYValue64 E (func q) (js_int (fst (point q))) (js_int (snd (point q)))))\<bar>
                     < 3602879701896397 / 2 ^ 56))
      \<and> attempted (stats S2) = attempted (stats S) + 2
      \<and> correct (stats S2) = correct (stats S) + (if r then 1 else 0) + (if r' then 1 else 0)"
proof -
  from checkAnswer_returns_evaluated [OF assms(1-4)] obtain vx lx vy ly u v where
    ex: "evaluateExpression E (trim a) (fst (point q)) (snd (point q)) = Returns (vx, lx)" and
    ey: "evaluateExpression E (trim b) (fst (point q)) (snd (point q)) = Returns (vy, ly)" and
    nx: "ToNumber vx = Returns u" and ny: "ToNumber vy = Returns v"
    by blast
  let ?cx = "partialXValue64 E (func q) (js_int (fst (point q))) (js_int (snd (point q)))"
  let ?cy = "partialYValue64 E (func q) (js_int (fst (point q))) (js_int (snd (point q)))"
  let ?dx = "within_tolerance u ?cx grading_tolerance"
  let ?dy = "within_tolerance v ?cy grading_tolerance"
  let ?dx' = "within_tolerance u' ?cx grading_tolerance"
  let ?dy' = "within_tolerance v' ?cy grading_tolerance"
  let ?q1 = "q\<lparr>answered := True, verdict := Some (?dx \<and> ?dy)\<rparr>"
  let ?q2 = "?q1\<lparr>answered := True, verdict := Some (?dx' \<and> ?dy')\<rparr>"
  from checkAnswer_graded [OF assms(1-3) ex ey nx ny refl refl] assms(4)
  have S1: "S1 = S\<lparr>
       stats := \<lparr>correct = (if ?dx \<and> ?dy then correct (stats S) + 1 else correct (stats S)),
                 attempted = attempted (stats S) + 1\<rparr>,
       console := console S @ lx @ ly,
       feedback := Some (?dx, ?dy, ?dx \<and> ?dy),
       currentQuestion := Some ?q1,
       answerInputShown := False,
       submitShown := False\<rparr>"
    by simp
  have q1: "currentQuestion S1 = Some ?q1"
    unfolding S1 by simp
  have ex': "evaluateExpression E (trim a') (fst (point ?q1)) (snd (point ?q1)) = Returns (vx', lx')"
    using assms(7) by simp
  have ey': "evaluateExpression E (trim b') (fst (point ?q1)) (snd (point ?q1)) = Returns (vy', ly')"
    using assms(8) by simp
  note g2 = checkAnswer_graded [OF q1 assms(5,6) ex' ey' assms(9,10) refl refl]
  show ?thesis
  proof (intro exI conjI)
    show "currentQuestion S1 = Some ?q1" by (rule q1)
    show "checkAnswer E a' b' S1 = Returns (S1\<lparr>
       stats := \<lparr>correct = (if ?dx' \<and> ?dy' then correct (stats S1) + 1 else correct (stats S1)),
                 attempted = attempted (stats S1) + 1\<rparr>,
       console := console S1 @ lx' @ ly',
       feedback := Some (?dx', ?dy', ?dx' \<and> ?dy'),
       currentQuestion := Some ?q2,
       answerInputShown := False,
       submitShown := False\<rparr>)"
      using g2 by simp
    show "verdict ?q1 = Some (?dx \<and> ?dy)" by simp
    show "verdict ?q2 = Some (?dx' \<and> ?dy')" by simp
    show "(?dx' \<and> ?dy') = ((js_finite u' \<and> js_finite ?cx
                 \<and> \<bar>fl64 (js_real u' - js_real ?cx)\<bar> < 3602879701896397 / 2 ^ 56)
              \<and> (js_finite v' \<and> js_finite ?cy
                 \<and> \<bar>fl64 (js_real v' - js_real ?cy)\<bar> < 3602879701896397 / 2 ^ 56))"
      unfolding within_tolerance_iff by simp
  qed (simp_all add: S1)
qed

theorem resubmission_is_graded_again_witness:
  "currentQuestion (first_question (new_question saddle (Saddle 2 1) (1, - 1)))
     = Some (new_question saddle (Saddle 2 1) (1, - 1))
   \<and> trim ''4*x'' \<noteq> [] \<and> trim ''2'' \<noteq> [] \<and> trim ''5'' \<noteq> []
   \<and> evaluateExpression correctly_rounded (trim ''5'') 1 (- 1) = Returns (VNum (Fin 5), [])
   \<and> evaluateExpression correctly_rounded (trim ''2'') 1 (- 1) = Returns (VNum (Fin 2), [])
   \<and> ToNumber (VNum (Fin 5)) = Returns (Fin 5) \<and> ToNumber (VNum (Fin 2)) = Returns (Fin 2)
   \<and> (\<exists>S1 S2.
        checkAnswer correctly_rounded ''4*x'' ''2''
          (first_question (new_question saddle (Saddle 2 1) (1, - 1))) = Returns S1
        \<and> attempted (stats S1) = 1
        \<and> checkAnswer correctly_rounded ''5'' ''2'' S1 = Returns S2
        \<and> attempted (stats S2) = 2)"
proof -
  let ?E = correctly_rounded
  let ?q = "new_question saddle (Saddle 2 1) (1, - 1)"
  let ?S = "first_question ?q"
  let ?S1 = "(first_question (new_question saddle (Saddle 2 1) (1, - 1)))\<lparr>
       currentQuestion := Some (?q\<lparr>answered := True, verdict := Some True\<rparr>),
       stats := \<lparr>correct = 1, attempted = 1\<rparr>,
       feedback := Some (True, True, True),
       answerInputShown := False, submitShown := False\<rparr>"
  have q: "currentQuestion ?S = Some ?q" by simp
  have a: "trim ''4*x'' \<noteq> []" and b: "trim ''2'' \<noteq> []" and a': "trim ''5'' \<noteq> []" by simp_all
  have f: "fl64 0 = 0" by (simp add: fl64_def)
  have first: "checkAnswer ?E ''4*x'' ''2'' ?S = Returns ?S1"
    by (simp add: checkAnswer_def Let_def obind_def first_question_def new_question_def eval_4x eval_two_1m1
          js_mul_def within_tolerance_iff f)
  have ex': "evaluateExpression ?E (trim ''5'') (fst (point ?q)) (snd (point ?q)) = Returns (VNum (Fin 5), [])"
    by (simp add: new_question_def eval_five_1m1)
  have ey': "evaluateExpression ?E (trim ''2'') (fst (point ?q)) (snd (point ?q)) = Returns (VNum (Fin 2), [])"
    by (simp add: new_question_def eval_two_1m1)
  have nx: "ToNumber (VNum (Fin 5)) = Returns (Fin 5)" and ny: "ToNumber (VNum (Fin 2)) = Returns (Fin 2)"
    by simp_all
  from resubmission_is_graded_again [OF q a b first a' b ex' ey' nx ny]
  obtain S2 where "checkAnswer ?E ''5'' ''2'' ?S1 = Returns S2"
    and "attempted (stats S2) = attempted (stats ?S) + 2"
    by blast
  then have "checkAnswer ?E ''5'' ''2'' ?S1 = Returns S2 \<and> attempted (stats S2) = 2"
    by (simp add: first_question_def)
  moreover have "attempted (stats ?S1) = 1" by simp
  ultimately have "\<exists>S1 S2. checkAnswer ?E ''4*x'' ''2'' ?S = Returns S1 \<and> attempted (stats S1) = 1
      \<and> checkAnswer ?E ''5'' ''2'' S1 = Returns S2 \<and> attempted (stats S2) = 2"
    using first by blast
  with q a b a' ex' ey' nx ny show ?thesis
    by (simp add: new_question_def)
qed

text \<open>
  Validation: when either answer is empty or white space only (here a no-break
  space), \<^verbatim>\<open>checkAnswer\<close> alerts and changes nothing else; the counters and the
  question stay as they were.
\<close>

theorem checkAnswer_rejects_empty_input:
  assumes "trim a = [] \<or> trim b = []"
  shows "checkAnswer E a b S = Returns (S\<lparr>alerts := alerts S @ [''Please fill in both partial derivatives.'']\<rparr>)"
  using assms by (auto simp: checkAnswer_def Let_def)

theorem checkAnswer_rejects_empty_input_witness:
  "(trim [CHR 0xC2, CHR 0xA0] = [] \<or> trim ''2'' = [])
   \<and> stats (first_question (new_question saddle (Saddle 2 1) (1, - 1))) = \<lparr>correct = 0, attempted = 0\<rparr>
   \<and> (\<exists>S'. checkAnswer correctly_rounded [CHR 0xC2, CHR 0xA0] ''2''
              (first_question (new_question saddle (Saddle 2 1) (1, - 1))) = Returns S'
          \<and> stats S' = \<lparr>correct = 0, attempted = 0\<rparr>
          \<and> currentQuestion S' = Some (new_question saddle (Saddle 2 1) (1, - 1))
          \<and> alerts S' = [''Please fill in both partial derivatives.''])"
proof -
  have h: "trim [CHR 0xC2, CHR 0xA0] = [] \<or> trim ''2'' = []"
    by (simp add: trim_blank)
  from checkAnswer_rejects_empty_input [OF h, of correctly_rounded
      "first_question (new_question saddle (Saddle 2 1) (1, - 1))"] h
  show ?thesis
    by (simp add: first_question_def)
qed

text \<open>
  Before any question has been generated \<^verbatim>\<open>STATE.currentQuestion\<close> is \<^verbatim>\<open>null\<close>, and
  \<^verbatim>\<open>checkAnswer\<close> with two non-empty answers throws a \<^verbatim>\<open>TypeError\<close> that nothing
  catches.
\<close>

theorem checkAnswer_without_question_throws:
  assumes "trim a \<noteq> []" and "trim b \<noteq> []" and "currentQuestion S = None"
  shows "checkAnswer E a b S = Throws TypeError"
  using assms by (simp add: checkAnswer_def Let_def)

theorem checkAnswer_without_question_throws_witness:
  "trim ''4*x'' \<noteq> [] \<and> trim ''2'' \<noteq> []
   \<and> currentQuestion ((first_question (new_question saddle (Saddle 2 1) (1, - 1)))\<lparr>currentQuestion := None\<rparr>) = None
   \<and> checkAnswer correctly_rounded ''4*x'' ''2''
        ((first_question (new_question saddle (Saddle 2 1) (1, - 1)))\<lparr>currentQuestion := None\<rparr>)
       = Throws TypeError"
proof -
  have a: "trim ''4*x'' \<noteq> []" and b: "trim ''2'' \<noteq> []" by simp_all
  have n: "currentQuestion ((first_question (new_question saddle (Saddle 2 1) (1, - 1)))\<lparr>currentQuestion := None\<rparr>) = None"
    by simp
  from checkAnswer_without_question_throws [OF a b n] a b n show ?thesis
    by blast
qed

text \<open>
  The caret: \<^verbatim>\<open>x^2\<close> at \<open>x = 3\<close> becomes \<^verbatim>\<open>(3)**2\<close>, whose value is the host's
  power, 9 on a host that rounds correctly. \<^verbatim>\<open>-x^2\<close> becomes \<^verbatim>\<open>-(3)**2\<close>, which
  the host's grammar refuses: the evaluator logs the \<^verbatim>\<open>SyntaxError\<close> and returns
  \<^verbatim>\<open>NaN\<close>.
\<close>

theorem caret_is_exponentiation:
  "evaluateExpression E ''x^2'' 3 0 = Returns (VNum (power_fn E 3 2), [])
   \<and> evaluateExpression correctly_rounded ''x^2'' 3 0 = Returns (VNum (Fin 9), [])
   \<and> evaluateExpression E ''-x^2'' 3 0 = Returns (VNum NaN, [SyntaxError])"
proof -
  have a: "evaluateExpression E ''x^2'' 3 0 = Returns (VNum (power_fn E 3 2), [])" for E
    by (simp add: eval_simps parse_square js_pow_def)
  have "number_value (exact_power 3 2) = Fin 9"
    by (simp add: exact_power_def)
  then have b: "evaluateExpression correctly_rounded ''x^2'' 3 0 = Returns (VNum (Fin 9), [])"
    unfolding a by (simp add: correctly_rounded_def)
  have c: "evaluateExpression E ''-x^2'' 3 0 = Returns (VNum NaN, [SyntaxError])"
    by (simp add: eval_simps parse_neg_square)
  from a b c show ?thesis by (intro conjI)
qed

end
